theory Spec2Isabelle
  imports Main
begin

section \<open>The deployment script \<open>scripts/deploy.py\<close>\<close>

text \<open>
  The script drives the \<open>forge\<close>, \<open>cast\<close> and \<open>solc\<close> command-line tools: it deploys eight
  contracts, submits each for source verification and asks for the verification status.
  Text is modelled as \<open>string\<close>, read as a sequence of code points below 256. A Python value
  that is either \<open>None\<close> or a \<open>str\<close> is a \<open>string option\<close>. Exceptions are values of the
  type \<open>error\<close>. The \<open>print\<close> calls only write to the terminal and are left out.
\<close>

subsection \<open>Python string primitives\<close>

datatype error =
    KeyError string
  | IndexError
  | ValueError
  | TypeError
  | CalledProcessError int
  | OSError string
  | TomlError string

type_synonym pyval = "string option"

text \<open>The characters for which \<open>str.isspace\<close> holds, among the code points below 256.\<close>

definition is_space :: "char \<Rightarrow> bool" where
  "is_space c \<longleftrightarrow>
     c \<in> {CHR 0x09, CHR 0x0A, CHR 0x0B, CHR 0x0C, CHR 0x0D, CHR 0x1C, CHR 0x1D,
          CHR 0x1E, CHR 0x1F, CHR 0x20, CHR 0x85, CHR 0xA0}"

text \<open>
  \<open>s.split()\<close>: the maximal runs of characters that are not whitespace, in order.
  \<open>split_acc\<close> carries the run read so far.
\<close>

fun split_acc :: "string \<Rightarrow> string \<Rightarrow> string list" where
  "split_acc acc [] = (if acc = [] then [] else [acc])"
| "split_acc acc (c # cs) =
     (if is_space c then (if acc = [] then split_acc [] cs else acc # split_acc [] cs)
      else split_acc (acc @ [c]) cs)"

definition split_ws :: "string \<Rightarrow> string list" where
  "split_ws s = split_acc [] s"

text \<open>\<open>s.split(sep)\<close> for a separator of one character; the result is never empty.\<close>

fun split_sep_acc :: "char \<Rightarrow> string \<Rightarrow> string \<Rightarrow> string list" where
  "split_sep_acc sep acc [] = [acc]"
| "split_sep_acc sep acc (c # cs) =
     (if c = sep then acc # split_sep_acc sep [] cs else split_sep_acc sep (acc @ [c]) cs)"

definition split_sep :: "char \<Rightarrow> string \<Rightarrow> string list" where
  "split_sep sep s = split_sep_acc sep [] s"

text \<open>\<open>s.startswith(p)\<close> and \<open>s.strip()\<close>.\<close>

definition startswith :: "string \<Rightarrow> string \<Rightarrow> bool" where
  "startswith s p \<longleftrightarrow> take (length p) s = p"

definition strip :: "string \<Rightarrow> string" where
  "strip s = rev (dropWhile is_space (rev (dropWhile is_space s)))"

text \<open>\<open>xs[-1]\<close> raises \<open>IndexError\<close> on the empty list.\<close>

definition last_item :: "'a list \<Rightarrow> error + 'a" where
  "last_item xs = (case xs of [] \<Rightarrow> Inl IndexError | _ # _ \<Rightarrow> Inr (last xs))"

text \<open>
  \<open>s[i:j]\<close>: a negative bound counts from the end, and both bounds are clamped to the
  length of \<open>s\<close>.
\<close>

definition clamp_index :: "int \<Rightarrow> nat \<Rightarrow> nat" where
  "clamp_index i n = (if i < 0 then nat (max 0 (int n + i)) else min (nat i) n)"

definition slice :: "int \<Rightarrow> int \<Rightarrow> 'a list \<Rightarrow> 'a list" where
  "slice i j s =
     (let lo = clamp_index i (length s); hi = clamp_index j (length s)
      in take (hi - lo) (drop lo s))"

text \<open>
  \<open>s.find(sub, start)\<close>: the lowest index at or after \<open>start\<close> where \<open>sub\<close> occurs, or
  \<open>-1\<close>. \<open>find_at sub i s\<close> searches \<open>s\<close>, whose first character has index \<open>i\<close>.
\<close>

fun find_at :: "string \<Rightarrow> nat \<Rightarrow> string \<Rightarrow> int" where
  "find_at sub i [] = (if sub = [] then int i else - 1)"
| "find_at sub i (c # cs) =
     (if startswith (c # cs) sub then int i else find_at sub (Suc i) cs)"

definition str_find :: "string \<Rightarrow> string \<Rightarrow> int \<Rightarrow> int" where
  "str_find s sub start =
     (let n = int (length s);
          b = (if start < 0 then max 0 (n + start) else start)
      in if n < b then - 1 else find_at sub (nat b) (drop (nat b) s))"

text \<open>\<open>str(n)\<close> for an integer: its decimal digits, with a minus sign when negative.\<close>

definition digit_char :: "nat \<Rightarrow> char" where
  "digit_char d = char_of (48 + d)"

fun str_nat :: "nat \<Rightarrow> string" where
  "str_nat n = (if n < 10 then [digit_char n] else str_nat (n div 10) @ [digit_char (n mod 10)])"

declare str_nat.simps [simp del]

definition str_int :: "int \<Rightarrow> string" where
  "str_int i = (if i < 0 then CHR ''-'' # str_nat (nat (- i)) else str_nat (nat i))"

subsection \<open>The output parser\<close>

text \<open>
  \<open>parseAddress\<close> returns the first token of \<open>str.split()\<close> that starts with \<open>0x\<close>; a
  \<open>for\<close> loop that ends without \<open>return\<close> gives \<open>None\<close>.
\<close>

fun first_0x :: "string list \<Rightarrow> pyval" where
  "first_0x [] = None"
| "first_0x (substr # rest) = (if startswith substr ''0x'' then Some substr else first_0x rest)"

definition parseAddress :: "string \<Rightarrow> pyval" where
  "parseAddress str = first_0x (split_ws str)"

fun first_deployed :: "string list \<Rightarrow> pyval" where
  "first_deployed [] = None"
| "first_deployed (line # rest) =
     (if startswith line ''Deployed to:'' then parseAddress line else first_deployed rest)"

definition parseDeployedAddress :: "string \<Rightarrow> pyval" where
  "parseDeployedAddress output = first_deployed (split_sep CHR 0x0A output)"

definition parseCompilerVersion :: "string \<Rightarrow> error + string" where
  "parseCompilerVersion output =
     (case last_item (split_ws output) of
        Inl e \<Rightarrow> Inl e
      | Inr tok \<Rightarrow>
          (let beginningOfCommitSha = str_find tok ''commit'' 0 + int (length ''commit'') + 1;
               endOfCommitSha = str_find tok ''.'' beginningOfCommitSha
           in Inr (''v'' @ slice 0 endOfCommitSha tok)))"

subsection \<open>Configuration read at start-up\<close>

text \<open>
  The environment of a run: the three variables read with \<open>os.getenv\<close> (\<open>None\<close> when
  unset), \<open>sys.argv\<close>, and the result of \<open>toml.load("foundry.toml")\<close>. Of the values a TOML
  file can hold, integers, strings and booleans are represented, in tables at the top level.
\<close>

datatype tomlval = TInt int | TStr string | TBool bool

type_synonym 'v dict = "(string \<times> 'v) list"

type_synonym config = "tomlval dict dict"

record env =
  ALCHEMY_KEY :: pyval
  PK :: pyval
  ETHERSCAN_KEY :: pyval
  argv :: "string list"
  foundry_toml :: "error + config"

text \<open>\<open>d[k]\<close> raises \<open>KeyError\<close> on a missing key; \<open>d[k] = v\<close> keeps the insertion order.\<close>

definition dict_get :: "'v dict \<Rightarrow> string \<Rightarrow> error + 'v" where
  "dict_get d k = (case map_of d k of None \<Rightarrow> Inl (KeyError k) | Some v \<Rightarrow> Inr v)"

fun dict_set :: "'v dict \<Rightarrow> string \<Rightarrow> 'v \<Rightarrow> 'v dict" where
  "dict_set [] k v = [(k, v)]"
| "dict_set (p # ps) k v = (if fst p = k then (k, v) # ps else p # dict_set ps k v)"

text \<open>How \<open>str\<close> and an f-string render a value.\<close>

definition str_pyval :: "pyval \<Rightarrow> string" where
  "str_pyval v = (case v of None \<Rightarrow> ''None'' | Some s \<Rightarrow> s)"

definition str_toml :: "tomlval \<Rightarrow> string" where
  "str_toml v =
     (case v of TInt i \<Rightarrow> str_int i | TStr s \<Rightarrow> s
      | TBool b \<Rightarrow> (if b then ''True'' else ''False''))"

definition NETWORK :: "env \<Rightarrow> string" where
  "NETWORK env = (if length (argv env) > 1 then argv env ! 1 else ''mainnet'')"

definition rpc_url :: "env \<Rightarrow> string" where
  "rpc_url env =
     ''https://eth-'' @ NETWORK env @ ''.alchemyapi.io/v2/'' @ str_pyval (ALCHEMY_KEY env)"

definition CHAIN_IDS :: "int dict" where
  "CHAIN_IDS = [(''mainnet'', 1), (''ropsten'', 3), (''rinkeby'', 4), (''goerli'', 5)]"

definition PROXY_FACTORY_ADDR :: string where
  "PROXY_FACTORY_ADDR = ''0x18bef085f6dD4Bf6c23aF90465c91cF68D5B74Cb''"

definition WETH :: string where
  "WETH = ''0x0Bb7509324cE409F7bbC4b701f932eAca9736AB7''"

definition PROTOCOL_FEE_RECIPIENT :: string where
  "PROTOCOL_FEE_RECIPIENT = ''0x891e3465fCD6A67D13762487D2E326e0bF55De2F''"

definition STRATEGY_EXCHANGE_FEE :: string where
  "STRATEGY_EXCHANGE_FEE = ''400''"

definition network :: "env \<Rightarrow> string" where
  "network env = (if length (argv env) > 1 then argv env ! 1 else ''mainnet'')"

definition chain_id :: "env \<Rightarrow> error + int" where
  "chain_id env = dict_get CHAIN_IDS (network env)"

subsection \<open>Running subprocesses\<close>

text \<open>
  The outside world answers the \<open>n\<close>-th subprocess call, made with a given argument vector,
  either with an error of the launch or with the lines of the captured output, as the
  iteration over \<open>process.stdout\<close> yields them, and the exit status. A program threads the
  list of the argument vectors it has tried to launch, and ends with an exception or a
  value. The working directory given to the compiler probe is not represented.
\<close>

record completed =
  stdout_lines :: "string list"
  returncode :: int

type_synonym world = "nat \<Rightarrow> string list \<Rightarrow> error + completed"

type_synonym trace = "pyval list list"

type_synonym 'a prog = "trace \<Rightarrow> (error + 'a) \<times> trace"

definition ret :: "'a \<Rightarrow> 'a prog" where
  "ret x = (\<lambda>t. (Inr x, t))"

definition lift :: "error + 'a \<Rightarrow> 'a prog" where
  "lift r = (\<lambda>t. (r, t))"

definition and_then :: "'a prog \<Rightarrow> ('a \<Rightarrow> 'b prog) \<Rightarrow> 'b prog" where
  "and_then m f = (\<lambda>t. case m t of (Inl e, t') \<Rightarrow> (Inl e, t') | (Inr a, t') \<Rightarrow> f a t')"

text \<open>
  Before a process exists, \<open>subprocess\<close> converts the arguments in their order: an argument
  that is \<open>None\<close> raises \<open>TypeError\<close>, a string that holds a NUL character raises
  \<open>ValueError\<close> (embedded null byte), and the first such argument decides.
\<close>

definition holds_nul :: "string \<Rightarrow> bool" where
  "holds_nul s \<longleftrightarrow> CHR 0x00 \<in> set s"

fun arg_error :: "pyval list \<Rightarrow> error option" where
  "arg_error [] = None"
| "arg_error (None # rest) = Some TypeError"
| "arg_error (Some s # rest) = (if holds_nul s then Some ValueError else arg_error rest)"

text \<open>
  \<open>subprocess.Popen(args, stdout=PIPE, stderr=STDOUT, universal_newlines=True)\<close>, read line
  by line until the stream ends; the exit status is not looked at.
  \<open>subprocess.check_output(args)\<close> returns the whole output and raises
  \<open>CalledProcessError\<close> on an exit status other than zero. A world is asked about argument
  vectors of strings only, so the two functions decide the vectors that hold \<open>None\<close>; on a
  vector of strings the conversion is the first part of the world's answer, which
  \<open>converting\<close> puts in front of an operating system.
\<close>

definition Popen :: "world \<Rightarrow> pyval list \<Rightarrow> string list prog" where
  "Popen w args =
     (\<lambda>t. (if None \<in> set args
           then (case arg_error args of Some e \<Rightarrow> Inl e | None \<Rightarrow> Inl TypeError)
           else (case w (length t) (map the args) of
                   Inl e \<Rightarrow> Inl e
                 | Inr r \<Rightarrow> Inr (stdout_lines r)),
           t @ [args]))"

definition check_output :: "world \<Rightarrow> pyval list \<Rightarrow> string prog" where
  "check_output w args =
     (\<lambda>t. (if None \<in> set args
           then (case arg_error args of Some e \<Rightarrow> Inl e | None \<Rightarrow> Inl TypeError)
           else (case w (length t) (map the args) of
                   Inl e \<Rightarrow> Inl e
                 | Inr r \<Rightarrow>
                     (if returncode r \<noteq> 0 then Inl (CalledProcessError (returncode r))
                      else Inr (concat (stdout_lines r)))),
           t @ [args]))"

definition converting :: "world \<Rightarrow> world" where
  "converting os n args =
     (case arg_error (map Some args) of Some e \<Rightarrow> Inl e | None \<Rightarrow> os n args)"

text \<open>
  An operating system of synthetic process outputs: the \<open>n\<close>-th call prints the \<open>n\<close>-th
  entry of the script and exits with status zero; no process can be launched once the
  script is used up. \<open>converting (scripted outs)\<close> is the world a test of the script runs
  in.
\<close>

definition scripted :: "string list list \<Rightarrow> world" where
  "scripted outs n args =
     (if n < length outs then Inr \<lparr>stdout_lines = outs ! n, returncode = 0\<rparr>
      else Inl (OSError ''no such file or directory''))"

subsection \<open>Deployment\<close>

text \<open>
  The loop of \<open>deploy_contract\<close> over the output lines: \<open>address\<close> starts as the empty
  string and is assigned at every line that starts with the marker.
\<close>

definition deploy_scan :: "string list \<Rightarrow> pyval" where
  "deploy_scan lines =
     foldl (\<lambda>address line.
              if startswith line ''Deployed to:'' then parseAddress line else address)
       (Some []) lines"

definition deploy_args :: "env \<Rightarrow> string \<Rightarrow> pyval list \<Rightarrow> pyval list" where
  "deploy_args env contract constructor_args =
     [Some ''forge'', Some ''create'', Some ''--rpc-url'', Some (rpc_url env),
      Some ''--private-key'', PK env, Some contract]
     @ (if length constructor_args > 0
        then Some ''--constructor-args'' # constructor_args else [])"

definition deploy_contract :: "env \<Rightarrow> world \<Rightarrow> string \<Rightarrow> pyval list \<Rightarrow> pyval prog" where
  "deploy_contract env w contract constructor_args =
     and_then (Popen w (deploy_args env contract constructor_args))
       (\<lambda>lines. ret (deploy_scan lines))"

definition deploy_contracts :: "env \<Rightarrow> world \<Rightarrow> pyval dict prog" where
  "deploy_contracts env w =
     and_then (deploy_contract env w
       ''src/strategies/StrategyStandardSaleForFixedPrice.sol:StrategyStandardSaleForFixedPrice''
       [Some STRATEGY_EXCHANGE_FEE]) (\<lambda>fixedPriceStrategy.
     and_then (deploy_contract env w ''src/CurrencyManager.sol:CurrencyManager'' [])
       (\<lambda>currencyManager.
     and_then (deploy_contract env w ''src/ExecutionManager.sol:ExecutionManager'' [])
       (\<lambda>executionManager.
     and_then (deploy_contract env w ''src/ReceiptToken.sol:ReceiptToken'' [])
       (\<lambda>receiptToken.
     and_then (deploy_contract env w ''src/RentalExchange.sol:RentalExchange''
       [currencyManager, executionManager, Some PROXY_FACTORY_ADDR, receiptToken, Some WETH,
        Some PROTOCOL_FEE_RECIPIENT]) (\<lambda>exchange.
     and_then (deploy_contract env w
       ''src/transferManagers/TransferManagerERC721.sol:TransferManagerERC721'' [exchange])
       (\<lambda>transferManagerERC721.
     and_then (deploy_contract env w
       ''src/transferManagers/TransferManagerERC1155.sol:TransferManagerERC1155'' [exchange])
       (\<lambda>transferManagerERC1155.
     and_then (deploy_contract env w ''src/TransferSelectorNFT.sol:TransferSelectorNFT''
       [transferManagerERC721, transferManagerERC1155]) (\<lambda>transferSelector.
     ret [(''fixedPriceStrategy'', fixedPriceStrategy),
          (''currencyManager'', currencyManager),
          (''executionManager'', executionManager),
          (''receiptToken'', receiptToken),
          (''exchange'', exchange),
          (''transferManagerERC721'', transferManagerERC721),
          (''transferManagerERC1155'', transferManagerERC1155),
          (''transferSelector'', transferSelector)]))))))))"

subsection \<open>Verification\<close>

text \<open>
  The loop of \<open>verify_contract\<close> over the output lines: \<open>guid\<close> is assigned at every line
  whose stripped form starts with \<open>GUID:\<close>, from the last token of the line without its
  first and last character.
\<close>

fun guid_loop :: "string \<Rightarrow> string list \<Rightarrow> error + string" where
  "guid_loop guid [] = Inr guid"
| "guid_loop guid (line # rest) =
     (if startswith (strip line) ''GUID:''
      then (case last_item (split_ws line) of
              Inl e \<Rightarrow> Inl e
            | Inr tok \<Rightarrow> guid_loop (slice 1 (- 1) tok) rest)
      else guid_loop guid rest)"

text \<open>A value is true in a condition unless it is \<open>None\<close> or empty.\<close>

definition truthy :: "pyval \<Rightarrow> bool" where
  "truthy v \<longleftrightarrow> v \<noteq> None \<and> v \<noteq> Some []"

definition verify_args ::
  "int \<Rightarrow> tomlval \<Rightarrow> string \<Rightarrow> pyval \<Rightarrow> string \<Rightarrow> pyval \<Rightarrow> pyval list" where
  "verify_args cid optimizer_runs compiler_version address contract encoded_constructor_args =
     [Some ''forge'', Some ''verify-contract'', Some ''--chain-id'', Some (str_int cid),
      Some ''--num-of-optimizations'', Some (str_toml optimizer_runs),
      Some ''--compiler-version'', Some compiler_version, address, Some contract]
     @ (if truthy encoded_constructor_args
        then [Some ''--constructor-args'', encoded_constructor_args] else [])"

definition verify_contract ::
  "world \<Rightarrow> int \<Rightarrow> tomlval \<Rightarrow> string \<Rightarrow> pyval \<Rightarrow> string \<Rightarrow> pyval \<Rightarrow> string prog" where
  "verify_contract w cid optimizer_runs compiler_version address contract
       encoded_constructor_args =
     and_then (Popen w (verify_args cid optimizer_runs compiler_version address contract
                          encoded_constructor_args))
       (\<lambda>lines. lift (guid_loop [] lines))"

text \<open>The loop of \<open>verify_contracts\<close> over the output of \<open>solc --version\<close>.\<close>

fun version_loop :: "string \<Rightarrow> string list \<Rightarrow> error + string" where
  "version_loop compiler_version [] = Inr compiler_version"
| "version_loop compiler_version (line # rest) =
     (if startswith line ''Version:''
      then (case parseCompilerVersion line of
              Inl e \<Rightarrow> Inl e
            | Inr v \<Rightarrow> version_loop v rest)
      else version_loop compiler_version rest)"

definition verify_contracts :: "world \<Rightarrow> config \<Rightarrow> int \<Rightarrow> pyval dict \<Rightarrow> string dict prog" where
  "verify_contracts w config cid addresses =
     and_then (lift (dict_get config ''default'')) (\<lambda>default_table.
     and_then (lift (dict_get default_table ''solc'')) (\<lambda>solc.
     and_then (Popen w [Some (''./.svm/'' @ str_toml solc @ ''/solc-'' @ str_toml solc),
                        Some ''--version'']) (\<lambda>lines.
     and_then (lift (version_loop [] lines)) (\<lambda>compiler_version.
     and_then (lift (dict_get config ''default'')) (\<lambda>default_table.
     and_then (lift (dict_get default_table ''optimizer_runs'')) (\<lambda>optimizer_runs.
     and_then (check_output w [Some ''cast'', Some ''abi-encode'',
                               Some ''constructor(uint256)'', Some STRATEGY_EXCHANGE_FEE])
       (\<lambda>encoded_constructor_args.
     and_then (lift (dict_get addresses ''fixedPriceStrategy'')) (\<lambda>address.
     and_then (verify_contract w cid optimizer_runs compiler_version address
       ''src/strategies/StrategyStandardSaleForFixedPrice.sol:StrategyStandardSaleForFixedPrice''
       (Some encoded_constructor_args)) (\<lambda>guid.
     (let guids = dict_set [] ''fixedPriceStrategy'' guid in
     and_then (lift (dict_get addresses ''currencyManager'')) (\<lambda>address.
     and_then (verify_contract w cid optimizer_runs compiler_version address
       ''src/CurrencyManager.sol:CurrencyManager'' None) (\<lambda>guid.
     (let guids = dict_set guids ''currencyManager'' guid in
     and_then (lift (dict_get addresses ''executionManager'')) (\<lambda>address.
     and_then (verify_contract w cid optimizer_runs compiler_version address
       ''src/ExecutionManager.sol:ExecutionManager'' None) (\<lambda>guid.
     (let guids = dict_set guids ''executionManager'' guid in
     and_then (lift (dict_get addresses ''receiptToken'')) (\<lambda>address.
     and_then (verify_contract w cid optimizer_runs compiler_version address
       ''src/ReceiptToken.sol:ReceiptToken'' None) (\<lambda>guid.
     (let guids = dict_set guids ''receiptToken'' guid in
     and_then (lift (dict_get addresses ''currencyManager'')) (\<lambda>currencyManager.
     and_then (lift (dict_get addresses ''executionManager'')) (\<lambda>executionManager.
     and_then (lift (dict_get addresses ''receiptToken'')) (\<lambda>receiptToken.
     and_then (check_output w [Some ''cast'', Some ''abi-encode'',
         Some ''constructor(address,address,address,address,address,address)'',
         currencyManager, executionManager, Some PROXY_FACTORY_ADDR, receiptToken, Some WETH,
         Some PROTOCOL_FEE_RECIPIENT]) (\<lambda>encoded_constructor_args.
     and_then (lift (dict_get addresses ''exchange'')) (\<lambda>address.
     and_then (verify_contract w cid optimizer_runs compiler_version address
       ''src/RentalExchange.sol:RentalExchange'' (Some encoded_constructor_args)) (\<lambda>guid.
     (let guids = dict_set guids ''exchange'' guid in
     and_then (lift (dict_get addresses ''exchange'')) (\<lambda>exchange.
     and_then (check_output w [Some ''cast'', Some ''abi-encode'',
         Some ''constructor(address)'', exchange]) (\<lambda>encoded_constructor_args.
     and_then (lift (dict_get addresses ''transferManagerERC721'')) (\<lambda>address.
     and_then (verify_contract w cid optimizer_runs compiler_version address
       ''src/transferManagers/TransferManagerERC721.sol:TransferManagerERC721''
       (Some encoded_constructor_args)) (\<lambda>guid.
     (let guids = dict_set guids ''transferManagerERC721'' guid in
     and_then (lift (dict_get addresses ''exchange'')) (\<lambda>exchange.
     and_then (check_output w [Some ''cast'', Some ''abi-encode'',
         Some ''constructor(address)'', exchange]) (\<lambda>encoded_constructor_args.
     and_then (lift (dict_get addresses ''transferManagerERC1155'')) (\<lambda>address.
     and_then (verify_contract w cid optimizer_runs compiler_version address
       ''src/transferManagers/TransferManagerERC1155.sol:TransferManagerERC1155''
       (Some encoded_constructor_args)) (\<lambda>guid.
     (let guids = dict_set guids ''transferManagerERC1155'' guid in
     and_then (lift (dict_get addresses ''transferManagerERC721'')) (\<lambda>transferManagerERC721.
     and_then (lift (dict_get addresses ''transferManagerERC1155''))
       (\<lambda>transferManagerERC1155.
     and_then (check_output w [Some ''cast'', Some ''abi-encode'',
         Some ''constructor(address,address)'', transferManagerERC721,
         transferManagerERC1155]) (\<lambda>encoded_constructor_args.
     and_then (lift (dict_get addresses ''transferSelector'')) (\<lambda>address.
     and_then (verify_contract w cid optimizer_runs compiler_version address
       ''src/TransferSelectorNFT.sol:TransferSelectorNFT'' (Some encoded_constructor_args))
       (\<lambda>guid.
     (let guids = dict_set guids ''transferSelector'' guid in
     ret guids))))))))))))))))))))))))))))))))))))))))))"

subsection \<open>Verification status\<close>

text \<open>
  \<open>for k, v in guids\<close> iterates over the keys of the dictionary and unpacks each key, a
  string, into \<open>k\<close> and \<open>v\<close>: its two characters, or \<open>ValueError\<close> when the key has another
  length. The argument vector is built from \<open>k\<close>.
\<close>

definition verify_check_args :: "int \<Rightarrow> string \<Rightarrow> pyval \<Rightarrow> pyval list" where
  "verify_check_args cid k etherscan_key =
     [Some ''forge'', Some ''verify-check'', Some ''--chain-id'', Some (str_int cid), Some k,
      etherscan_key]"

fun status_loop :: "env \<Rightarrow> world \<Rightarrow> int \<Rightarrow> string list \<Rightarrow> unit prog" where
  "status_loop env w cid [] = ret ()"
| "status_loop env w cid (item # rest) =
     (case item of
        [k, v] \<Rightarrow>
          and_then (Popen w (verify_check_args cid [k] (ETHERSCAN_KEY env)))
            (\<lambda>lines. status_loop env w cid rest)
      | _ \<Rightarrow> lift (Inl ValueError))"

definition check_verfication_status :: "env \<Rightarrow> world \<Rightarrow> int \<Rightarrow> string dict \<Rightarrow> unit prog" where
  "check_verfication_status env w cid guids = status_loop env w cid (map fst guids)"

subsection \<open>The module body\<close>

text \<open>
  The statements of the module in their order: the configuration file is loaded, the chain
  id is looked up, and only then the three phases run.
\<close>

definition run_module :: "env \<Rightarrow> world \<Rightarrow> unit prog" where
  "run_module env w =
     and_then (lift (foundry_toml env)) (\<lambda>config.
     and_then (lift (chain_id env)) (\<lambda>cid.
     and_then (deploy_contracts env w) (\<lambda>addresses.
     and_then (verify_contracts w config cid addresses) (\<lambda>guids.
     check_verfication_status env w cid guids))))"

subsection \<open>The commands of a run\<close>

text \<open>
  \<open>only_calls P m\<close>: every argument vector that the program \<open>m\<close> adds to the list of calls
  satisfies \<open>P\<close>. \<open>is_verify_check\<close> holds of the vectors of the status command.
\<close>

definition only_calls :: "(pyval list \<Rightarrow> bool) \<Rightarrow> 'a prog \<Rightarrow> bool" where
  "only_calls P m \<longleftrightarrow> (\<forall>t c. c \<in> set (snd (m t)) \<longrightarrow> c \<in> set t \<or> P c)"

definition is_verify_check :: "pyval list \<Rightarrow> bool" where
  "is_verify_check c \<longleftrightarrow> take 2 c = [Some ''forge'', Some ''verify-check'']"

text \<open>
  A sample run on goerli: the environment, and the outputs of the twenty-two processes in
  the order in which the script starts them (eight deployments, the compiler probe, and the
  encoder and verification calls).
\<close>

definition sample_env :: env where
  "sample_env = \<lparr>ALCHEMY_KEY = Some ''key'', PK = Some ''pk'', ETHERSCAN_KEY = Some ''ek'',
     argv = [''deploy.py'', ''goerli''],
     foundry_toml = Inr [(''default'', [(''solc'', TStr ''0.8.13''),
                                        (''optimizer_runs'', TInt 200)])]\<rparr>"

definition sample_script :: "string list list" where
  "sample_script = [[''Deployed to: 0xb0\<newline>''], [''Deployed to: 0xb1\<newline>''],
     [''Deployed to: 0xb2\<newline>''], [''Deployed to: 0xb3\<newline>''],
     [''Deployed to: 0xb4\<newline>''], [''Deployed to: 0xb5\<newline>''],
     [''Deployed to: 0xb6\<newline>''], [''Deployed to: 0xb7\<newline>''],
     [''Version: 0.8.13+commit.abaa5c0e.Linux.g++\<newline>''],
     [''0x0190\<newline>''],
     [''GUID: '' @ [CHR 0x22] @ ''g0'' @ [CHR 0x22, CHR 0x0A]],
     [''GUID: '' @ [CHR 0x22] @ ''g1'' @ [CHR 0x22, CHR 0x0A]],
     [''GUID: '' @ [CHR 0x22] @ ''g2'' @ [CHR 0x22, CHR 0x0A]],
     [''GUID: '' @ [CHR 0x22] @ ''g3'' @ [CHR 0x22, CHR 0x0A]],
     [''0xb1b2\<newline>''],
     [''GUID: '' @ [CHR 0x22] @ ''g4'' @ [CHR 0x22, CHR 0x0A]],
     [''0xb4\<newline>''],
     [''GUID: '' @ [CHR 0x22] @ ''g5'' @ [CHR 0x22, CHR 0x0A]],
     [''0xb4\<newline>''],
     [''GUID: '' @ [CHR 0x22] @ ''g6'' @ [CHR 0x22, CHR 0x0A]],
     [''0xb5b6\<newline>''],
     [''GUID: '' @ [CHR 0x22] @ ''g7'' @ [CHR 0x22, CHR 0x0A]]]"

subsection \<open>The kind of a failure\<close>

text \<open>
  The specification asks that an unknown network name fails with a Configuration error,
  ``a clear error rather than an uncaught lookup failure''. The lookup failures of Python
  are the exceptions of the class \<open>LookupError\<close>: \<open>KeyError\<close> and \<open>IndexError\<close>.
\<close>

fun lookup_failure :: "error \<Rightarrow> bool" where
  "lookup_failure (KeyError k) = True"
| "lookup_failure IndexError = True"
| "lookup_failure e = False"

section \<open>Supporting lemmas\<close>

subsection \<open>Strings and the parser loops\<close>

text \<open>
  The two ways of splitting do what their names say: a token of \<open>split_ws\<close> is not empty
  and holds no whitespace, the tokens together are the characters that are not whitespace,
  and the parts of \<open>split_sep\<close> hold no separator and give the text back when joined.
\<close>

lemma split_acc_tokens:
  "\<forall>c \<in> set acc. \<not> is_space c \<Longrightarrow>
   \<forall>tok \<in> set (split_acc acc s). tok \<noteq> [] \<and> (\<forall>c \<in> set tok. \<not> is_space c)"
proof (induction s arbitrary: acc)
  case Nil
  then show ?case by simp
next
  case (Cons a s)
  have e: "\<forall>tok \<in> set (split_acc [] s). tok \<noteq> [] \<and> (\<forall>c \<in> set tok. \<not> is_space c)"
    by (rule Cons.IH) simp
  show ?case
  proof (cases "is_space a")
    case True
    with e Cons.prems show ?thesis by simp
  next
    case False
    with Cons.prems have "\<forall>c \<in> set (acc @ [a]). \<not> is_space c" by simp
    from Cons.IH[OF this] False show ?thesis by simp
  qed
qed

lemma split_ws_tokens:
  "tok \<in> set (split_ws s) \<Longrightarrow> tok \<noteq> [] \<and> (\<forall>c \<in> set tok. \<not> is_space c)"
  using split_acc_tokens[of "[]" s] by (simp add: split_ws_def)

lemma split_sep_acc_lines:
  "sep \<notin> set acc \<Longrightarrow> \<forall>l \<in> set (split_sep_acc sep acc s). sep \<notin> set l"
proof (induction s arbitrary: acc)
  case Nil
  then show ?case by simp
next
  case (Cons a s)
  have e: "\<forall>l \<in> set (split_sep_acc sep [] s). sep \<notin> set l"
    by (rule Cons.IH) simp
  show ?case
  proof (cases "a = sep")
    case True
    with e Cons.prems show ?thesis by simp
  next
    case False
    with Cons.prems have "sep \<notin> set (acc @ [a])" by simp
    from Cons.IH[OF this] False show ?thesis by simp
  qed
qed

lemma split_sep_lines: "l \<in> set (split_sep sep s) \<Longrightarrow> sep \<notin> set l"
  using split_sep_acc_lines[of sep "[]" s] by (simp add: split_sep_def)

lemma split_sep_acc_join:
  "concat (map (\<lambda>l. sep # l) (split_sep_acc sep acc s)) = sep # acc @ s"
  by (induction s arbitrary: acc) simp_all

lemma split_sep_join: "tl (concat (map (\<lambda>l. sep # l) (split_sep sep s))) = s"
  by (simp add: split_sep_def split_sep_acc_join)

lemma split_acc_concat:
  "concat (split_acc acc s) = acc @ filter (\<lambda>c. \<not> is_space c) s"
  by (induction s arbitrary: acc) simp_all

lemma first_0x_None: "first_0x ts = None \<longleftrightarrow> (\<forall>t \<in> set ts. \<not> startswith t ''0x'')"
  by (induction ts) auto

lemma first_0x_append:
  "\<forall>t \<in> set pre. \<not> startswith t ''0x'' \<Longrightarrow> first_0x (pre @ ts) = first_0x ts"
  by (induction pre) auto

lemma first_deployed_None:
  "\<forall>l \<in> set ls. \<not> startswith l ''Deployed to:'' \<Longrightarrow> first_deployed ls = None"
  by (induction ls) auto

lemma first_deployed_append:
  "\<forall>l \<in> set pre. \<not> startswith l ''Deployed to:'' \<Longrightarrow> first_deployed (pre @ ls) = first_deployed ls"
  by (induction pre) auto

lemma split_acc_empty: "split_acc acc s = [] \<longleftrightarrow> acc = [] \<and> (\<forall>c \<in> set s. is_space c)"
  by (induction s arbitrary: acc) auto

lemma split_ws_empty: "split_ws s = [] \<longleftrightarrow> (\<forall>c \<in> set s. is_space c)"
  by (simp add: split_ws_def split_acc_empty)

lemma strip_all_space: "\<forall>c \<in> set s. is_space c \<Longrightarrow> strip s = []"
  by (auto simp: strip_def dest: set_dropWhileD)

lemma guid_line_has_token: "startswith (strip line) ''GUID:'' \<Longrightarrow> split_ws line \<noteq> []"
proof
  assume a: "startswith (strip line) ''GUID:''" and "split_ws line = []"
  then have "strip line = []" by (simp add: split_ws_empty strip_all_space)
  with a show False by (simp add: startswith_def)
qed

lemma slice_1_m1: "slice 1 (- 1) s = butlast (tl s)"
  by (cases s) (auto simp: slice_def clamp_index_def butlast_conv_take drop_Suc max_def Let_def)

lemma guid_loop_no_guid:
  "\<forall>l \<in> set ls. \<not> startswith (strip l) ''GUID:'' \<Longrightarrow> guid_loop g ls = Inr g"
  by (induction ls) auto

lemma guid_loop_last:
  assumes "startswith (strip line) ''GUID:''"
    and "\<forall>l \<in> set post. \<not> startswith (strip l) ''GUID:''"
  shows "guid_loop g (pre @ line # post) = Inr (butlast (tl (last (split_ws line))))"
  using assms
proof (induction pre arbitrary: g)
  case Nil
  then show ?case
    using guid_line_has_token[of line]
    by (cases "split_ws line") (simp_all add: last_item_def guid_loop_no_guid slice_1_m1)
next
  case (Cons l pre)
  show ?case
  proof (cases "startswith (strip l) ''GUID:''")
    case True
    then obtain t ts where "split_ws l = t # ts"
      using guid_line_has_token[of l] by (cases "split_ws l") auto
    with True Cons show ?thesis by (simp add: last_item_def)
  next
    case False
    with Cons show ?thesis by simp
  qed
qed

lemma foldl_no_marker:
  "\<forall>l \<in> set ls. \<not> startswith l ''Deployed to:'' \<Longrightarrow>
   foldl (\<lambda>address line. if startswith line ''Deployed to:'' then parseAddress line else address) a ls = a"
  by (induction ls arbitrary: a) auto

lemma deploy_scan_no_marker:
  "\<forall>l \<in> set ls. \<not> startswith l ''Deployed to:'' \<Longrightarrow> deploy_scan ls = Some []"
  by (simp add: deploy_scan_def foldl_no_marker)

lemma deploy_scan_last:
  "startswith line ''Deployed to:'' \<Longrightarrow> \<forall>l \<in> set post. \<not> startswith l ''Deployed to:'' \<Longrightarrow>
   deploy_scan (pre @ line # post) = parseAddress line"
  by (simp add: deploy_scan_def foldl_no_marker)

subsection \<open>Searching a version token\<close>

lemma startswith_append_fresh:
  assumes "\<not> startswith ys sub" and "c0 \<notin> set sub"
  shows "\<not> startswith (ys @ c0 # zs) sub"
proof
  assume a: "startswith (ys @ c0 # zs) sub"
  show False
  proof (cases "length sub \<le> length ys")
    case True
    with a have "take (length sub) ys = sub" by (simp add: startswith_def)
    with assms(1) show False by (simp add: startswith_def)
  next
    case False
    then have "take (length sub) (ys @ c0 # zs) = ys @ c0 # take (length sub - Suc (length ys)) zs"
      by (simp add: take_Cons')
    with a have "sub = ys @ c0 # take (length sub - Suc (length ys)) zs"
      by (simp add: startswith_def)
    then have "c0 \<in> set sub" by (metis in_set_conv_decomp)
    with assms(2) show False by simp
  qed
qed

lemma find_at_after_fresh:
  assumes "find_at sub i ys = - 1" and "c0 \<notin> set sub" and "startswith zs sub"
  shows "find_at sub i (ys @ c0 # zs) = int (i + length ys + 1)"
  using assms
proof (induction ys arbitrary: i)
  case Nil
  then have "sub \<noteq> []" by auto
  with Nil have "\<not> startswith (c0 # zs) sub"
    by (cases sub) (auto simp: startswith_def)
  with Nil show ?case by (cases zs) (auto simp: startswith_def)
next
  case (Cons y ys)
  from Cons.prems(1) have ns: "\<not> startswith (y # ys) sub" and rest: "find_at sub (Suc i) ys = - 1"
    by (auto split: if_splits)
  from ns Cons.prems(2) have "\<not> startswith ((y # ys) @ c0 # zs) sub"
    by (rule startswith_append_fresh)
  with Cons.IH[OF rest Cons.prems(2) Cons.prems(3)] show ?case by simp
qed

lemma find_at_char:
  "c \<notin> set ys \<Longrightarrow> find_at [c] i (ys @ c # zs) = int (i + length ys)"
  by (induction ys arbitrary: i) (auto simp: startswith_def)

lemma slice_prefix: "slice 0 (int (length a)) (a @ b) = a"
  by (simp add: slice_def clamp_index_def)

lemma str_find_nat: "n \<le> length s \<Longrightarrow> str_find s sub (int n) = find_at sub n (drop n s)"
  by (simp add: str_find_def Let_def)

lemma version_token:
  assumes nc: "str_find ver ''commit'' 0 = - 1" and nd: "CHR ''.'' \<notin> set sha"
  shows "(let tok = ver @ ''+commit.'' @ sha @ ''.'' @ rest;
              b = str_find tok ''commit'' 0 + int (length ''commit'') + 1;
              e = str_find tok ''.'' b
          in slice 0 e tok) = ver @ ''+commit.'' @ sha"
proof -
  let ?tok = "ver @ ''+commit.'' @ sha @ ''.'' @ rest"
  from nc have f0: "find_at ''commit'' 0 ver = - 1" by (simp add: str_find_def)
  have "find_at ''commit'' 0 (ver @ CHR ''+'' # (''commit.'' @ sha @ ''.'' @ rest)) = int (0 + length ver + 1)"
    by (rule find_at_after_fresh[OF f0]) (simp_all add: startswith_def)
  then have b: "str_find ?tok ''commit'' 0 + int (length ''commit'') + 1 = int (length ver + 8)"
    by (simp add: str_find_def)
  have d: "drop (length ver + 8) ?tok = sha @ CHR ''.'' # rest" by simp
  have "str_find ?tok ''.'' (int (length ver + 8)) = find_at ''.'' (length ver + 8) (drop (length ver + 8) ?tok)"
    by (rule str_find_nat) simp
  also have "\<dots> = find_at ''.'' (length ver + 8) (sha @ CHR ''.'' # rest)"
    by (simp only: d)
  also have "\<dots> = int (length ver + 8 + length sha)"
    using nd by (rule find_at_char)
  also have "\<dots> = int (length (ver @ ''+commit.'' @ sha))"
    by simp
  finally have e: "str_find ?tok ''.'' (int (length ver + 8)) = int (length (ver @ ''+commit.'' @ sha))" .
  have s: "slice 0 (int (length (ver @ ''+commit.'' @ sha))) ?tok = ver @ ''+commit.'' @ sha"
    using slice_prefix[of "ver @ ''+commit.'' @ sha" "''.'' @ rest"] by simp
  show ?thesis unfolding Let_def b e by (rule s)
qed

lemma parseCompilerVersion_token:
  assumes "split_ws line = toks @ [ver @ ''+commit.'' @ sha @ ''.'' @ rest]"
    and "str_find ver ''commit'' 0 = - 1" and "CHR ''.'' \<notin> set sha"
  shows "parseCompilerVersion line = Inr (''v'' @ ver @ ''+commit.'' @ sha)"
proof -
  have "last_item (split_ws line) = Inr (ver @ ''+commit.'' @ sha @ ''.'' @ rest)"
    unfolding assms(1) last_item_def by (cases toks) simp_all
  then show ?thesis
    unfolding parseCompilerVersion_def
    using version_token[OF assms(2) assms(3), of rest]
    by (simp add: Let_def)
qed


subsection \<open>Running the phases\<close>

lemma Popen_ok:
  "None \<notin> set args \<Longrightarrow> w (length t) (map the args) = Inr r \<Longrightarrow>
   Popen w args t = (Inr (stdout_lines r), t @ [args])"
  by (simp add: Popen_def)

lemma deploy_args_None:
  "None \<in> set (deploy_args env contract cargs) \<longleftrightarrow> PK env = None \<or> None \<in> set cargs"
  by (auto simp: deploy_args_def)

lemma deploy_contract_ok:
  assumes "PK env = Some pk" and "None \<notin> set cargs"
    and "w (length t) (map the (deploy_args env contract cargs)) = Inr r"
  shows "deploy_contract env w contract cargs t =
           (Inr (deploy_scan (stdout_lines r)), t @ [deploy_args env contract cargs])"
proof -
  have "None \<notin> set (deploy_args env contract cargs)"
    using assms(1,2) by (simp add: deploy_args_None)
  then have "Popen w (deploy_args env contract cargs) t =
               (Inr (stdout_lines r), t @ [deploy_args env contract cargs])"
    using assms(3) by (rule Popen_ok)
  then show ?thesis
    by (simp add: deploy_contract_def and_then_def ret_def)
qed

lemma verify_args_None:
  "None \<notin> set (verify_args cid runs ver (Some address) contract enc)"
  by (auto simp: verify_args_def truthy_def)

lemma verify_contract_ok:
  assumes "w (length t) (map the (verify_args cid runs ver (Some address) contract enc)) = Inr r"
  shows "verify_contract w cid runs ver (Some address) contract enc t =
           (guid_loop [] (stdout_lines r),
            t @ [verify_args cid runs ver (Some address) contract enc])"
proof -
  have "Popen w (verify_args cid runs ver (Some address) contract enc) t =
          (Inr (stdout_lines r), t @ [verify_args cid runs ver (Some address) contract enc])"
    using verify_args_None assms by (rule Popen_ok)
  then show ?thesis
    by (simp add: verify_contract_def and_then_def lift_def)
qed


lemma arg_error_None:
  "arg_error args = None \<longleftrightarrow> None \<notin> set args \<and> (\<forall>s. Some s \<in> set args \<longrightarrow> \<not> holds_nul s)"
proof (induction args)
  case Nil
  then show ?case by simp
next
  case (Cons a args)
  then show ?case by (cases a) auto
qed

lemma map_Some_the: "None \<notin> set args \<Longrightarrow> map Some (map the args) = args"
  by (induction args) auto

lemma converting_ok:
  assumes "arg_error args = None"
  shows "converting os n (map the args) = os n (map the args)"
proof -
  from assms have "None \<notin> set args"
    by (simp add: arg_error_None)
  then have m: "map Some (map the args) = args"
    by (rule map_Some_the)
  show ?thesis
    unfolding converting_def m assms by simp
qed

lemma deploy_contract_converting:
  assumes "arg_error (deploy_args env contract cargs) = None" and "length t < length outs"
  shows "deploy_contract env (converting (scripted outs)) contract cargs t =
           (Inr (deploy_scan (outs ! length t)), t @ [deploy_args env contract cargs])"
proof -
  let ?args = "deploy_args env contract cargs"
  from assms(1) have nn: "None \<notin> set ?args"
    by (simp add: arg_error_None)
  have "converting (scripted outs) (length t) (map the ?args)
          = Inr \<lparr>stdout_lines = outs ! length t, returncode = 0\<rparr>"
    using assms by (simp add: converting_ok scripted_def)
  with nn have "Popen (converting (scripted outs)) ?args t
                  = (Inr (stdout_lines \<lparr>stdout_lines = outs ! length t, returncode = 0\<rparr>),
                     t @ [?args])"
    by (rule Popen_ok)
  then show ?thesis
    by (simp add: deploy_contract_def and_then_def ret_def)
qed

lemma verify_contracts_keys:
  "verify_contracts w config cid addresses t = (Inr guids, t') \<Longrightarrow>
   map fst guids = [''fixedPriceStrategy'', ''currencyManager'', ''executionManager'',
                    ''receiptToken'', ''exchange'', ''transferManagerERC721'',
                    ''transferManagerERC1155'', ''transferSelector'']"
  unfolding verify_contracts_def and_then_def lift_def ret_def Let_def
  by (auto split: sum.splits prod.splits)

lemma only_calls_ret: "only_calls P (ret x)"
  by (simp add: only_calls_def ret_def)

lemma only_calls_lift: "only_calls P (lift r)"
  by (simp add: only_calls_def lift_def)

lemma only_calls_Popen: "P args \<Longrightarrow> only_calls P (Popen w args)"
  by (auto simp: only_calls_def Popen_def)

lemma only_calls_check_output: "P args \<Longrightarrow> only_calls P (check_output w args)"
  by (auto simp: only_calls_def check_output_def)

lemma only_calls_and_then_dep:
  assumes m: "only_calls P m"
    and f: "\<And>a t t' c. m t = (Inr a, t') \<Longrightarrow> c \<in> set (snd (f a t')) \<Longrightarrow> c \<in> set t' \<or> P c"
  shows "only_calls P (and_then m f)"
  unfolding only_calls_def
proof (intro allI impI)
  fix t c
  assume c: "c \<in> set (snd (and_then m f t))"
  obtain r t' where mt: "m t = (r, t')" by (cases "m t")
  from m mt have t': "\<And>d. d \<in> set t' \<Longrightarrow> d \<in> set t \<or> P d"
    by (auto simp: only_calls_def dest: spec[where x=t])
  show "c \<in> set t \<or> P c"
  proof (cases r)
    case (Inl e)
    with c mt have "c \<in> set t'" by (simp add: and_then_def)
    then show ?thesis by (rule t')
  next
    case (Inr a)
    with c mt have cf: "c \<in> set (snd (f a t'))" by (simp add: and_then_def)
    from mt Inr have "m t = (Inr a, t')" by simp
    from f[OF this cf] have "c \<in> set t' \<or> P c" .
    with t' show ?thesis by auto
  qed
qed

lemma only_calls_and_then:
  "only_calls P m \<Longrightarrow> (\<And>a. only_calls P (f a)) \<Longrightarrow> only_calls P (and_then m f)"
  by (rule only_calls_and_then_dep) (auto simp: only_calls_def)

lemma only_calls_deploy_contracts: "only_calls (\<lambda>c. \<not> is_verify_check c) (deploy_contracts env w)"
  unfolding deploy_contracts_def deploy_contract_def
  by (intro only_calls_and_then only_calls_ret only_calls_Popen) (simp_all add: deploy_args_def is_verify_check_def)

lemma only_calls_verify_contracts:
  "only_calls (\<lambda>c. \<not> is_verify_check c) (verify_contracts w config cid addresses)"
  unfolding verify_contracts_def verify_contract_def Let_def
  by (intro only_calls_and_then only_calls_ret only_calls_lift only_calls_Popen
      only_calls_check_output) (simp_all add: verify_args_def is_verify_check_def)

lemma status_on_verified:
  assumes "verify_contracts w config cid addresses t = (Inr guids, t')"
  shows "check_verfication_status env w' cid' guids t' = (Inl ValueError, t')"
proof -
  from assms have "map fst guids = [''fixedPriceStrategy'', ''currencyManager'',
      ''executionManager'', ''receiptToken'', ''exchange'', ''transferManagerERC721'',
      ''transferManagerERC1155'', ''transferSelector'']"
    by (rule verify_contracts_keys)
  then show ?thesis
    by (simp add: check_verfication_status_def lift_def)
qed

lemma only_calls_run_module: "only_calls (\<lambda>c. \<not> is_verify_check c) (run_module env w)"
proof -
  have last: "\<And>config cid addresses.
      only_calls (\<lambda>c. \<not> is_verify_check c)
        (and_then (verify_contracts w config cid addresses)
           (\<lambda>guids. check_verfication_status env w cid guids))"
  proof (rule only_calls_and_then_dep[OF only_calls_verify_contracts])
    fix config cid addresses guids t t' c
    assume "verify_contracts w config cid addresses t = (Inr guids, t')"
      and "c \<in> set (snd (check_verfication_status env w cid guids t'))"
    then show "c \<in> set t' \<or> \<not> is_verify_check c"
      by (simp add: status_on_verified)
  qed
  show ?thesis
    unfolding run_module_def
    by (intro only_calls_and_then only_calls_lift only_calls_deploy_contracts last)
qed

lemma run_module_never_completes: "fst (run_module env w t) \<noteq> Inr u"
  unfolding run_module_def and_then_def lift_def
  by (auto split: sum.splits prod.splits simp: status_on_verified)

lemma str_int_5: "str_int 5 = ''5''"
  by code_simp


section \<open>The claims\<close>

subsection \<open>Deployment order and the address map\<close>

text \<open>
  Claim C1. Given eight synthetic process outputs, one per deployment, \<open>deploy_contracts\<close>
  launches exactly eight \<open>forge create\<close> calls, in the order strategy, currency manager,
  execution manager, receipt token, exchange, ERC-721 transfer manager, ERC-1155 transfer
  manager, transfer selector, and returns a dictionary with exactly the eight keys, each
  mapped to the address scanned from the output of its own call. Every argument vector is
  written out: the exchange is given the addresses scanned from the outputs of the currency
  manager, the execution manager and the receipt token, both transfer managers are given
  the address of the exchange, and the selector those of both transfer managers, so each
  of these calls is made after the call whose result it carries. The outputs are successful
  ones: the private key is set, and neither it, nor the RPC URL, nor one of the six
  addresses that are passed on is \<open>None\<close> or holds a NUL character, on which the
  conversion of the arguments raises \<open>TypeError\<close> or \<open>ValueError\<close>.
\<close>

theorem deploy_contracts_eight_in_order:
  assumes pk: "PK env = Some pk"
    and clean: "\<not> holds_nul pk" "\<not> holds_nul (rpc_url env)"
    and used: "\<forall>out \<in> {out_currency, out_execution, out_receipt, out_exchange, out_nft,
                 out_multi}. \<exists>a. deploy_scan out = Some a \<and> \<not> holds_nul a"
  shows "deploy_contracts env
           (converting (scripted [out_strategy, out_currency, out_execution, out_receipt,
                                  out_exchange, out_nft, out_multi, out_selector])) [] =
    (Inr [(''fixedPriceStrategy'', deploy_scan out_strategy),
          (''currencyManager'', deploy_scan out_currency),
          (''executionManager'', deploy_scan out_execution),
          (''receiptToken'', deploy_scan out_receipt),
          (''exchange'', deploy_scan out_exchange),
          (''transferManagerERC721'', deploy_scan out_nft),
          (''transferManagerERC1155'', deploy_scan out_multi),
          (''transferSelector'', deploy_scan out_selector)],
     [[Some ''forge'', Some ''create'', Some ''--rpc-url'', Some (rpc_url env),
       Some ''--private-key'', Some pk,
       Some ''src/strategies/StrategyStandardSaleForFixedPrice.sol:StrategyStandardSaleForFixedPrice'',
       Some ''--constructor-args'', Some ''400''],
      [Some ''forge'', Some ''create'', Some ''--rpc-url'', Some (rpc_url env),
       Some ''--private-key'', Some pk, Some ''src/CurrencyManager.sol:CurrencyManager''],
      [Some ''forge'', Some ''create'', Some ''--rpc-url'', Some (rpc_url env),
       Some ''--private-key'', Some pk, Some ''src/ExecutionManager.sol:ExecutionManager''],
      [Some ''forge'', Some ''create'', Some ''--rpc-url'', Some (rpc_url env),
       Some ''--private-key'', Some pk, Some ''src/ReceiptToken.sol:ReceiptToken''],
      [Some ''forge'', Some ''create'', Some ''--rpc-url'', Some (rpc_url env),
       Some ''--private-key'', Some pk, Some ''src/RentalExchange.sol:RentalExchange'',
       Some ''--constructor-args'', deploy_scan out_currency, deploy_scan out_execution,
       Some ''0x18bef085f6dD4Bf6c23aF90465c91cF68D5B74Cb'', deploy_scan out_receipt,
       Some ''0x0Bb7509324cE409F7bbC4b701f932eAca9736AB7'',
       Some ''0x891e3465fCD6A67D13762487D2E326e0bF55De2F''],
      [Some ''forge'', Some ''create'', Some ''--rpc-url'', Some (rpc_url env),
       Some ''--private-key'', Some pk,
       Some ''src/transferManagers/TransferManagerERC721.sol:TransferManagerERC721'',
       Some ''--constructor-args'', deploy_scan out_exchange],
      [Some ''forge'', Some ''create'', Some ''--rpc-url'', Some (rpc_url env),
       Some ''--private-key'', Some pk,
       Some ''src/transferManagers/TransferManagerERC1155.sol:TransferManagerERC1155'',
       Some ''--constructor-args'', deploy_scan out_exchange],
      [Some ''forge'', Some ''create'', Some ''--rpc-url'', Some (rpc_url env),
       Some ''--private-key'', Some pk, Some ''src/TransferSelectorNFT.sol:TransferSelectorNFT'',
       Some ''--constructor-args'', deploy_scan out_nft, deploy_scan out_multi]])"
proof -
  let ?outs = "[out_strategy, out_currency, out_execution, out_receipt, out_exchange,
                out_nft, out_multi, out_selector]"
  from used obtain a1 a2 a3 a4 a5 a6 where
    n: "deploy_scan out_currency = Some a1" "deploy_scan out_execution = Some a2"
       "deploy_scan out_receipt = Some a3" "deploy_scan out_exchange = Some a4"
       "deploy_scan out_nft = Some a5" "deploy_scan out_multi = Some a6"
    and c: "\<not> holds_nul a1" "\<not> holds_nul a2" "\<not> holds_nul a3" "\<not> holds_nul a4"
       "\<not> holds_nul a5" "\<not> holds_nul a6"
    by auto
  have lit: "\<not> holds_nul ''forge''" "\<not> holds_nul ''create''" "\<not> holds_nul ''--rpc-url''"
    "\<not> holds_nul ''--private-key''" "\<not> holds_nul ''--constructor-args''"
    "\<not> holds_nul ''400''"
    "\<not> holds_nul ''0x18bef085f6dD4Bf6c23aF90465c91cF68D5B74Cb''"
    "\<not> holds_nul ''0x0Bb7509324cE409F7bbC4b701f932eAca9736AB7''"
    "\<not> holds_nul ''0x891e3465fCD6A67D13762487D2E326e0bF55De2F''"
    "\<not> holds_nul ''src/strategies/StrategyStandardSaleForFixedPrice.sol:StrategyStandardSaleForFixedPrice''"
    "\<not> holds_nul ''src/CurrencyManager.sol:CurrencyManager''"
    "\<not> holds_nul ''src/ExecutionManager.sol:ExecutionManager''"
    "\<not> holds_nul ''src/ReceiptToken.sol:ReceiptToken''"
    "\<not> holds_nul ''src/RentalExchange.sol:RentalExchange''"
    "\<not> holds_nul ''src/transferManagers/TransferManagerERC721.sol:TransferManagerERC721''"
    "\<not> holds_nul ''src/transferManagers/TransferManagerERC1155.sol:TransferManagerERC1155''"
    "\<not> holds_nul ''src/TransferSelectorNFT.sol:TransferSelectorNFT''"
    by (simp_all add: holds_nul_def)
  have step: "\<And>t contract cargs. arg_error (deploy_args env contract cargs) = None \<Longrightarrow>
      length t < 8 \<Longrightarrow>
      deploy_contract env (converting (scripted ?outs)) contract cargs t =
        (Inr (deploy_scan (?outs ! length t)), t @ [deploy_args env contract cargs])"
    using deploy_contract_converting[of env _ _ _ ?outs] by simp
  have args: "\<And>contract cargs. deploy_args env contract cargs =
      [Some ''forge'', Some ''create'', Some ''--rpc-url'', Some (rpc_url env),
       Some ''--private-key'', Some pk, Some contract]
      @ (if cargs = [] then [] else Some ''--constructor-args'' # cargs)"
    using pk by (simp add: deploy_args_def)
  show ?thesis
    unfolding deploy_contracts_def
    by (simp add: and_then_def step n c lit clean ret_def args
        STRATEGY_EXCHANGE_FEE_def PROXY_FACTORY_ADDR_def WETH_def PROTOCOL_FEE_RECIPIENT_def)
qed

theorem deploy_contracts_eight_in_order_witness:
  "deploy_contracts sample_env (converting (scripted (take 8 sample_script))) [] =
    (Inr [(''fixedPriceStrategy'', Some ''0xb0''), (''currencyManager'', Some ''0xb1''),
          (''executionManager'', Some ''0xb2''), (''receiptToken'', Some ''0xb3''),
          (''exchange'', Some ''0xb4''), (''transferManagerERC721'', Some ''0xb5''),
          (''transferManagerERC1155'', Some ''0xb6''), (''transferSelector'', Some ''0xb7'')],
     [[Some ''forge'', Some ''create'', Some ''--rpc-url'',
       Some ''https://eth-goerli.alchemyapi.io/v2/key'', Some ''--private-key'', Some ''pk'',
       Some ''src/strategies/StrategyStandardSaleForFixedPrice.sol:StrategyStandardSaleForFixedPrice'',
       Some ''--constructor-args'', Some ''400''],
      [Some ''forge'', Some ''create'', Some ''--rpc-url'',
       Some ''https://eth-goerli.alchemyapi.io/v2/key'', Some ''--private-key'', Some ''pk'',
       Some ''src/CurrencyManager.sol:CurrencyManager''],
      [Some ''forge'', Some ''create'', Some ''--rpc-url'',
       Some ''https://eth-goerli.alchemyapi.io/v2/key'', Some ''--private-key'', Some ''pk'',
       Some ''src/ExecutionManager.sol:ExecutionManager''],
      [Some ''forge'', Some ''create'', Some ''--rpc-url'',
       Some ''https://eth-goerli.alchemyapi.io/v2/key'', Some ''--private-key'', Some ''pk'',
       Some ''src/ReceiptToken.sol:ReceiptToken''],
      [Some ''forge'', Some ''create'', Some ''--rpc-url'',
       Some ''https://eth-goerli.alchemyapi.io/v2/key'', Some ''--private-key'', Some ''pk'',
       Some ''src/RentalExchange.sol:RentalExchange'', Some ''--constructor-args'',
       Some ''0xb1'', Some ''0xb2'', Some ''0x18bef085f6dD4Bf6c23aF90465c91cF68D5B74Cb'',
       Some ''0xb3'', Some ''0x0Bb7509324cE409F7bbC4b701f932eAca9736AB7'',
       Some ''0x891e3465fCD6A67D13762487D2E326e0bF55De2F''],
      [Some ''forge'', Some ''create'', Some ''--rpc-url'',
       Some ''https://eth-goerli.alchemyapi.io/v2/key'', Some ''--private-key'', Some ''pk'',
       Some ''src/transferManagers/TransferManagerERC721.sol:TransferManagerERC721'',
       Some ''--constructor-args'', Some ''0xb4''],
      [Some ''forge'', Some ''create'', Some ''--rpc-url'',
       Some ''https://eth-goerli.alchemyapi.io/v2/key'', Some ''--private-key'', Some ''pk'',
       Some ''src/transferManagers/TransferManagerERC1155.sol:TransferManagerERC1155'',
       Some ''--constructor-args'', Some ''0xb4''],
      [Some ''forge'', Some ''create'', Some ''--rpc-url'',
       Some ''https://eth-goerli.alchemyapi.io/v2/key'', Some ''--private-key'', Some ''pk'',
       Some ''src/TransferSelectorNFT.sol:TransferSelectorNFT'', Some ''--constructor-args'',
       Some ''0xb5'', Some ''0xb6'']])"
proof -
  have scan: "\<And>a. deploy_scan [''Deployed to: 0xb'' @ [a, CHR 0x0A]] =
                (if is_space a then Some ''0xb'' else Some (''0xb'' @ [a]))"
    by (simp add: deploy_scan_def parseAddress_def split_ws_def is_space_def startswith_def)
  have h1: "PK sample_env = Some ''pk''" by (simp add: sample_env_def)
  have h2: "\<not> holds_nul ''pk''" by (simp add: holds_nul_def)
  have url: "rpc_url sample_env = ''https://eth-goerli.alchemyapi.io/v2/key''"
    by (simp add: rpc_url_def NETWORK_def sample_env_def str_pyval_def)
  have h3: "\<not> holds_nul (rpc_url sample_env)" unfolding url by (simp add: holds_nul_def)
  have h4: "\<forall>out \<in> {[''Deployed to: 0xb1\<newline>''], [''Deployed to: 0xb2\<newline>''],
                [''Deployed to: 0xb3\<newline>''], [''Deployed to: 0xb4\<newline>''],
                [''Deployed to: 0xb5\<newline>''], [''Deployed to: 0xb6\<newline>'']}.
         \<exists>a. deploy_scan out = Some a \<and> \<not> holds_nul a"
    using scan by (simp add: is_space_def holds_nul_def)
  have outs: "take 8 sample_script = [[''Deployed to: 0xb0\<newline>''], [''Deployed to: 0xb1\<newline>''],
     [''Deployed to: 0xb2\<newline>''], [''Deployed to: 0xb3\<newline>''],
     [''Deployed to: 0xb4\<newline>''], [''Deployed to: 0xb5\<newline>''],
     [''Deployed to: 0xb6\<newline>''], [''Deployed to: 0xb7\<newline>'']]"
    by (simp add: sample_script_def)
  from deploy_contracts_eight_in_order[OF h1 h2 h3 h4, of "[''Deployed to: 0xb0\<newline>'']"
      "[''Deployed to: 0xb7\<newline>'']"]
  show ?thesis unfolding outs url using scan by (simp add: is_space_def)
qed

subsection \<open>Verification status\<close>

text \<open>
  Claim C2. The claim says that \<open>check_verfication_status\<close> goes through the (name,
  identifier) pairs of the tracking dictionary and passes each identifier to
  \<open>forge verify-check\<close>. The code iterates over the dictionary itself, that is over its
  keys, and unpacks each key into \<open>k, v\<close>. With a key such as \<open>fixedPriceStrategy\<close>, as
  \<open>verify_contracts\<close> produces, the unpacking raises \<open>ValueError\<close> before any process is
  launched; with a key of two characters the call is made with the first character of the
  name, never with the identifier.
\<close>

theorem check_verfication_status_unpacks_keys:
  "check_verfication_status env w cid ((''fixedPriceStrategy'', guid) # rest) t
     = (Inl ValueError, t)
   \<and> snd (check_verfication_status env w cid [(''ab'', guid)] [])
     = [verify_check_args cid ''a'' (ETHERSCAN_KEY env)]"
  by (simp add: check_verfication_status_def lift_def and_then_def Popen_def ret_def
      split: sum.splits)

subsection \<open>An unknown network\<close>

text \<open>
  Claim C3, as amended. When the network argument is not a key of \<open>CHAIN_IDS\<close>, the module
  fails before any subprocess call is attempted, with the \<open>KeyError\<close> that the lookup
  \<open>CHAIN_IDS[network]\<close> raises for the network name, unless loading \<open>foundry.toml\<close> has
  already failed; in both cases no call has been made. The claim as stated asks for a
  Configuration error, a clear error rather than an uncaught lookup failure; the
  counterexample is a run with the network \<open>sepolia\<close>, which ends in the lookup failure
  \<open>KeyError\<close> itself.
\<close>

theorem unknown_network_fails_before_subprocess:
  assumes "argv env = script # net # rest_args"
    and "net \<notin> fst ` set CHAIN_IDS"
  shows "run_module env w [] =
           (case foundry_toml env of
              Inl e \<Rightarrow> (Inl e, [])
            | Inr config \<Rightarrow> (Inl (KeyError net), []))"
proof -
  from assms(1) have net: "network env = net"
    by (simp add: network_def)
  from assms(2) have "map_of CHAIN_IDS net = None"
    by (simp add: map_of_eq_None_iff)
  with net have "chain_id env = Inl (KeyError net)"
    by (simp add: chain_id_def dict_get_def)
  then show ?thesis
    by (simp add: run_module_def and_then_def lift_def split: sum.splits)
qed

theorem unknown_network_fails_before_subprocess_witness:
  "argv \<lparr>ALCHEMY_KEY = Some ''key'', PK = Some ''pk'', ETHERSCAN_KEY = Some ''ek'',
          argv = [''deploy.py'', ''kovan''], foundry_toml = Inr []\<rparr>
     = ''deploy.py'' # ''kovan'' # []
   \<and> ''kovan'' \<notin> fst ` set CHAIN_IDS
   \<and> run_module \<lparr>ALCHEMY_KEY = Some ''key'', PK = Some ''pk'', ETHERSCAN_KEY = Some ''ek'',
          argv = [''deploy.py'', ''kovan''], foundry_toml = Inr []\<rparr> (scripted []) []
     = (Inl (KeyError ''kovan''), [])"
proof -
  let ?env = "\<lparr>ALCHEMY_KEY = Some ''key'', PK = Some ''pk'', ETHERSCAN_KEY = Some ''ek'',
          argv = [''deploy.py'', ''kovan''], foundry_toml = Inr []\<rparr>"
  have h1: "argv ?env = ''deploy.py'' # ''kovan'' # []" by simp
  have h2: "''kovan'' \<notin> fst ` set CHAIN_IDS" by (simp add: CHAIN_IDS_def)
  from unknown_network_fails_before_subprocess[OF h1 h2, of "scripted []"] h1 h2
  show ?thesis by simp
qed

theorem unknown_network_lookup_failure_counterexample:
  "fst (run_module
          \<lparr>ALCHEMY_KEY = Some ''key'', PK = Some ''pk'', ETHERSCAN_KEY = Some ''ek'',
           argv = [''deploy.py'', ''sepolia''],
           foundry_toml = Inr [(''default'', [(''solc'', TStr ''0.8.13''),
                                              (''optimizer_runs'', TInt 200)])]\<rparr>
          (converting (scripted [])) [])
     = Inl (KeyError ''sepolia'')
   \<and> lookup_failure (KeyError ''sepolia'')"
  by (simp add: run_module_def and_then_def lift_def chain_id_def network_def dict_get_def
      CHAIN_IDS_def)

subsection \<open>The address returned by a deployment\<close>

text \<open>
  Claim C4, as amended. When the process was launched, \<open>deploy_contract\<close> returns the result
  of \<open>parseAddress\<close> on the last output line that starts with \<open>Deployed to:\<close> (the first
  token of that line starting with \<open>0x\<close>, or \<open>None\<close> when the line has none), and returns
  the empty string when no line starts with the marker. The claim as stated takes the first
  such line and an absent value; the counterexample gives an output with two marker lines,
  where the address of the second is returned, and an output without a marker line, where
  the empty string is returned.
\<close>

theorem deploy_contract_last_marker_line:
  "PK env = Some pk \<and> None \<notin> set constructor_args
   \<and> w (length t) (map the (deploy_args env contract constructor_args)) = Inr r
   \<longrightarrow>
     ((\<forall>l \<in> set (stdout_lines r). \<not> startswith l ''Deployed to:'')
        \<longrightarrow> fst (deploy_contract env w contract constructor_args t) = Inr (Some []))
     \<and> (\<forall>pre line post. stdout_lines r = pre @ line # post
            \<and> startswith line ''Deployed to:''
            \<and> (\<forall>l \<in> set post. \<not> startswith l ''Deployed to:'')
          \<longrightarrow> fst (deploy_contract env w contract constructor_args t)
                = Inr (parseAddress line))"
proof (intro impI)
  assume a: "PK env = Some pk \<and> None \<notin> set constructor_args
   \<and> w (length t) (map the (deploy_args env contract constructor_args)) = Inr r"
  then have run: "fst (deploy_contract env w contract constructor_args t)
                    = Inr (deploy_scan (stdout_lines r))"
    using deploy_contract_ok[of env pk constructor_args w t contract r] by simp
  show "((\<forall>l \<in> set (stdout_lines r). \<not> startswith l ''Deployed to:'')
        \<longrightarrow> fst (deploy_contract env w contract constructor_args t) = Inr (Some []))
     \<and> (\<forall>pre line post. stdout_lines r = pre @ line # post
            \<and> startswith line ''Deployed to:''
            \<and> (\<forall>l \<in> set post. \<not> startswith l ''Deployed to:'')
          \<longrightarrow> fst (deploy_contract env w contract constructor_args t)
                = Inr (parseAddress line))"
    unfolding run by (auto simp: deploy_scan_no_marker deploy_scan_last)
qed

theorem deploy_contract_last_marker_line_witness:
  "fst (deploy_contract
          \<lparr>ALCHEMY_KEY = Some ''key'', PK = Some ''pk'', ETHERSCAN_KEY = Some ''ek'',
           argv = [''deploy.py'', ''goerli''], foundry_toml = Inr []\<rparr>
          (scripted [[''Deployer: 0xdd\<newline>'', ''Deployed to: 0x1111\<newline>'',
                      ''Deployed to: 0x2222\<newline>'', ''Transaction hash: 0xee\<newline>'']])
          ''src/ReceiptToken.sol:ReceiptToken'' [] [])
     = Inr (Some ''0x2222'')
   \<and> fst (deploy_contract
          \<lparr>ALCHEMY_KEY = Some ''key'', PK = Some ''pk'', ETHERSCAN_KEY = Some ''ek'',
           argv = [''deploy.py'', ''goerli''], foundry_toml = Inr []\<rparr>
          (scripted [[''Error: compiler run failed\<newline>'']])
          ''src/ReceiptToken.sol:ReceiptToken'' [] [])
     = Inr (Some [])"
proof -
  let ?env = "\<lparr>ALCHEMY_KEY = Some ''key'', PK = Some ''pk'', ETHERSCAN_KEY = Some ''ek'',
           argv = [''deploy.py'', ''goerli''], foundry_toml = Inr []\<rparr>"
  let ?ls = "[''Deployer: 0xdd\<newline>'', ''Deployed to: 0x1111\<newline>'',
              ''Deployed to: 0x2222\<newline>'', ''Transaction hash: 0xee\<newline>'']"
  let ?r = "\<lparr>stdout_lines = ?ls, returncode = 0\<rparr>"
  let ?r2 = "\<lparr>stdout_lines = [''Error: compiler run failed\<newline>''], returncode = 0\<rparr>"
  have h1: "PK ?env = Some ''pk'' \<and> None \<notin> set ([] :: pyval list)
     \<and> scripted [?ls] (length ([] :: trace))
          (map the (deploy_args ?env ''src/ReceiptToken.sol:ReceiptToken'' [])) = Inr ?r"
    by (simp add: scripted_def)
  have h2: "stdout_lines ?r = [''Deployer: 0xdd\<newline>'', ''Deployed to: 0x1111\<newline>'']
              @ ''Deployed to: 0x2222\<newline>'' # [''Transaction hash: 0xee\<newline>'']
            \<and> startswith ''Deployed to: 0x2222\<newline>'' ''Deployed to:''
            \<and> (\<forall>l \<in> set [''Transaction hash: 0xee\<newline>'']. \<not> startswith l ''Deployed to:'')"
    by (simp add: startswith_def)
  have h3: "parseAddress ''Deployed to: 0x2222\<newline>'' = Some ''0x2222''"
    by (simp add: parseAddress_def split_ws_def is_space_def startswith_def)
  have g1: "PK ?env = Some ''pk'' \<and> None \<notin> set ([] :: pyval list)
     \<and> scripted [[''Error: compiler run failed\<newline>'']] (length ([] :: trace))
          (map the (deploy_args ?env ''src/ReceiptToken.sol:ReceiptToken'' [])) = Inr ?r2"
    by (simp add: scripted_def)
  have g2: "\<forall>l \<in> set (stdout_lines ?r2). \<not> startswith l ''Deployed to:''"
    by (simp add: startswith_def)
  from deploy_contract_last_marker_line[of ?env "''pk''" "[]" "scripted [?ls]" "[]"
      "''src/ReceiptToken.sol:ReceiptToken''" ?r] h1 h2
  have r1: "fst (deploy_contract ?env (scripted [?ls]) ''src/ReceiptToken.sol:ReceiptToken'' [] [])
          = Inr (parseAddress ''Deployed to: 0x2222\<newline>'')"
    by blast
  from deploy_contract_last_marker_line[of ?env "''pk''" "[]"
      "scripted [[''Error: compiler run failed\<newline>'']]" "[]"
      "''src/ReceiptToken.sol:ReceiptToken''" ?r2] g1 g2
  have r2: "fst (deploy_contract ?env (scripted [[''Error: compiler run failed\<newline>'']])
             ''src/ReceiptToken.sol:ReceiptToken'' [] []) = Inr (Some [])"
    by blast
  from r1 r2 h3 show ?thesis by simp
qed

theorem deploy_contract_first_marker_counterexample:
  "fst (deploy_contract
          \<lparr>ALCHEMY_KEY = Some ''key'', PK = Some ''pk'', ETHERSCAN_KEY = Some ''ek'',
           argv = [''deploy.py'', ''goerli''], foundry_toml = Inr []\<rparr>
          (scripted [[''Deployed to: 0x1111\<newline>'', ''Deployed to: 0x2222\<newline>'']])
          ''src/ReceiptToken.sol:ReceiptToken'' [] [])
     \<noteq> Inr (first_deployed [''Deployed to: 0x1111\<newline>'', ''Deployed to: 0x2222\<newline>''])
   \<and> fst (deploy_contract
          \<lparr>ALCHEMY_KEY = Some ''key'', PK = Some ''pk'', ETHERSCAN_KEY = Some ''ek'',
           argv = [''deploy.py'', ''goerli''], foundry_toml = Inr []\<rparr>
          (scripted [[''Error: compiler run failed\<newline>'']])
          ''src/ReceiptToken.sol:ReceiptToken'' [] [])
     \<noteq> Inr None"
  by (simp add: deploy_contract_def and_then_def Popen_def deploy_args_def scripted_def ret_def
      deploy_scan_def parseAddress_def split_ws_def is_space_def startswith_def)

subsection \<open>The compiler version\<close>

text \<open>
  Claim C5. On the line \<open>... Version: 0.8.13+commit.abaa5c0e.Darwin.appleclang\<close> the
  function \<open>parseCompilerVersion\<close> returns \<open>v0.8.13+commit.abaa5c0e\<close>. In general, when the
  last token of the line is a version, \<open>+commit.\<close>, a commit hash, a dot and the rest (the
  platform and the toolchain), where the word \<open>commit\<close> does not occur in the version and
  the hash holds no dot, the result is \<open>v\<close> followed by the token up to the dot that ends
  the hash.
\<close>

theorem parseCompilerVersion_commit_token:
  "parseCompilerVersion ''... Version: 0.8.13+commit.abaa5c0e.Darwin.appleclang''
     = Inr ''v0.8.13+commit.abaa5c0e''
   \<and> (\<forall>toks ver sha rest.
         split_ws line = toks @ [ver @ ''+commit.'' @ sha @ ''.'' @ rest]
         \<and> str_find ver ''commit'' 0 = - 1 \<and> CHR ''.'' \<notin> set sha
       \<longrightarrow> parseCompilerVersion line = Inr (''v'' @ ver @ ''+commit.'' @ sha))"
proof (intro conjI allI impI)
  have "split_ws ''... Version: 0.8.13+commit.abaa5c0e.Darwin.appleclang'' =
          [''...'', ''Version:''] @ [''0.8.13'' @ ''+commit.'' @ ''abaa5c0e'' @ ''.'' @ ''Darwin.appleclang'']"
    by (simp add: split_ws_def is_space_def)
  moreover have "str_find ''0.8.13'' ''commit'' 0 = - 1"
    by (simp add: str_find_def startswith_def)
  moreover have "CHR ''.'' \<notin> set ''abaa5c0e''"
    by simp
  ultimately have "parseCompilerVersion ''... Version: 0.8.13+commit.abaa5c0e.Darwin.appleclang''
     = Inr (''v'' @ ''0.8.13'' @ ''+commit.'' @ ''abaa5c0e'')"
    by (rule parseCompilerVersion_token)
  then show "parseCompilerVersion ''... Version: 0.8.13+commit.abaa5c0e.Darwin.appleclang''
     = Inr ''v0.8.13+commit.abaa5c0e''"
    by simp
next
  fix toks ver sha rest
  assume "split_ws line = toks @ [ver @ ''+commit.'' @ sha @ ''.'' @ rest]
         \<and> str_find ver ''commit'' 0 = - 1 \<and> CHR ''.'' \<notin> set sha"
  then show "parseCompilerVersion line = Inr (''v'' @ ver @ ''+commit.'' @ sha)"
    by (blast intro: parseCompilerVersion_token)
qed

theorem parseCompilerVersion_commit_token_witness:
  "split_ws ''Version: 0.4.26+commit.4563c3fc.Linux.g++\<newline>'' =
     [''Version:''] @ [''0.4.26'' @ ''+commit.'' @ ''4563c3fc'' @ ''.'' @ ''Linux.g++'']
   \<and> str_find ''0.4.26'' ''commit'' 0 = - 1 \<and> CHR ''.'' \<notin> set ''4563c3fc''
   \<and> parseCompilerVersion ''Version: 0.4.26+commit.4563c3fc.Linux.g++\<newline>''
       = Inr ''v0.4.26+commit.4563c3fc''"
proof -
  have h1: "split_ws ''Version: 0.4.26+commit.4563c3fc.Linux.g++\<newline>'' =
     [''Version:''] @ [''0.4.26'' @ ''+commit.'' @ ''4563c3fc'' @ ''.'' @ ''Linux.g++'']"
    by (simp add: split_ws_def is_space_def)
  have h2: "str_find ''0.4.26'' ''commit'' 0 = - 1"
    by (simp add: str_find_def startswith_def)
  have h3: "CHR ''.'' \<notin> set ''4563c3fc''"
    by simp
  from parseCompilerVersion_commit_token[of "''Version: 0.4.26+commit.4563c3fc.Linux.g++\<newline>''"]
    h1 h2 h3
  have "parseCompilerVersion ''Version: 0.4.26+commit.4563c3fc.Linux.g++\<newline>''
       = Inr (''v'' @ ''0.4.26'' @ ''+commit.'' @ ''4563c3fc'')"
    by blast
  with h1 h2 h3 show ?thesis by simp
qed

subsection \<open>Addresses in a line and in an output\<close>

text \<open>
  Claim C6. \<open>parseAddress\<close> returns \<open>None\<close> exactly when no token of the line starts with
  \<open>0x\<close>, and otherwise the first token that does. In particular, on a line whose tokens
  end with \<open>Deployed\<close>, \<open>to:\<close> and an address starting with \<open>0x\<close>, after tokens of which
  none starts with \<open>0x\<close>, it returns that address.
\<close>

theorem parseAddress_first_0x_token:
  "(parseAddress line = None \<longleftrightarrow> (\<forall>tok \<in> set (split_ws line). \<not> startswith tok ''0x''))
   \<and> (\<forall>pre a post. split_ws line = pre @ a # post \<and> startswith a ''0x''
          \<and> (\<forall>tok \<in> set pre. \<not> startswith tok ''0x'')
        \<longrightarrow> parseAddress line = Some a)
   \<and> (\<forall>pre addr. split_ws line = pre @ [''Deployed'', ''to:'', addr] \<and> startswith addr ''0x''
          \<and> (\<forall>tok \<in> set pre. \<not> startswith tok ''0x'')
        \<longrightarrow> parseAddress line = Some addr)"
proof (intro conjI allI impI)
  show "parseAddress line = None \<longleftrightarrow> (\<forall>tok \<in> set (split_ws line). \<not> startswith tok ''0x'')"
    by (simp add: parseAddress_def first_0x_None)
next
  fix pre a post
  assume "split_ws line = pre @ a # post \<and> startswith a ''0x''
          \<and> (\<forall>tok \<in> set pre. \<not> startswith tok ''0x'')"
  then show "parseAddress line = Some a"
    by (simp add: parseAddress_def first_0x_append)
next
  fix pre addr
  assume a: "split_ws line = pre @ [''Deployed'', ''to:'', addr] \<and> startswith addr ''0x''
          \<and> (\<forall>tok \<in> set pre. \<not> startswith tok ''0x'')"
  have "first_0x (pre @ [''Deployed'', ''to:'', addr]) = first_0x [''Deployed'', ''to:'', addr]"
    using a by (simp add: first_0x_append)
  also have "\<dots> = Some addr"
    using a by (simp add: startswith_def)
  finally show "parseAddress line = Some addr"
    using a by (simp add: parseAddress_def)
qed

theorem parseAddress_first_0x_token_witness:
  "split_ws ''Transaction mined. Deployed to: 0xABCDEF'' =
     [''Transaction'', ''mined.''] @ [''Deployed'', ''to:'', ''0xABCDEF'']
   \<and> startswith ''0xABCDEF'' ''0x''
   \<and> \<not> startswith ''Transaction'' ''0x'' \<and> \<not> startswith ''mined.'' ''0x''
   \<and> parseAddress ''Transaction mined. Deployed to: 0xABCDEF'' = Some ''0xABCDEF''"
proof -
  have h1: "split_ws ''Transaction mined. Deployed to: 0xABCDEF'' =
     [''Transaction'', ''mined.''] @ [''Deployed'', ''to:'', ''0xABCDEF'']"
    by (simp add: split_ws_def is_space_def)
  have h2: "startswith ''0xABCDEF'' ''0x''"
    by (simp add: startswith_def)
  have h3: "\<forall>tok \<in> set [''Transaction'', ''mined.'']. \<not> startswith tok ''0x''"
    by (simp add: startswith_def)
  from parseAddress_first_0x_token[of "''Transaction mined. Deployed to: 0xABCDEF''"] h1 h2 h3
  have "parseAddress ''Transaction mined. Deployed to: 0xABCDEF'' = Some ''0xABCDEF''"
    by blast
  with h1 h2 h3 show ?thesis by simp
qed

text \<open>
  Claim C7. \<open>parseDeployedAddress\<close> returns \<open>None\<close> when no line of the output starts with
  \<open>Deployed to:\<close>, and otherwise the result of \<open>parseAddress\<close> on the first line that
  does. The lines are the parts of the output between newline characters.
\<close>

theorem parseDeployedAddress_first_marker_line:
  "((\<forall>l \<in> set (split_sep CHR 0x0A output). \<not> startswith l ''Deployed to:'')
      \<longrightarrow> parseDeployedAddress output = None)
   \<and> (\<forall>pre line post. split_sep CHR 0x0A output = pre @ line # post
          \<and> startswith line ''Deployed to:''
          \<and> (\<forall>l \<in> set pre. \<not> startswith l ''Deployed to:'')
        \<longrightarrow> parseDeployedAddress output = parseAddress line)"
  by (simp add: parseDeployedAddress_def first_deployed_None first_deployed_append)

theorem parseDeployedAddress_first_marker_line_witness:
  "split_sep CHR 0x0A ''Compiling...\<newline>Deployer: 0xaa\<newline>Deployed to: 0xbb\<newline>Deployed to: 0xcc\<newline>'' =
     [''Compiling...'', ''Deployer: 0xaa''] @ ''Deployed to: 0xbb'' # [''Deployed to: 0xcc'', '''']
   \<and> startswith ''Deployed to: 0xbb'' ''Deployed to:''
   \<and> \<not> startswith ''Compiling...'' ''Deployed to:''
   \<and> \<not> startswith ''Deployer: 0xaa'' ''Deployed to:''
   \<and> parseDeployedAddress ''Compiling...\<newline>Deployer: 0xaa\<newline>Deployed to: 0xbb\<newline>Deployed to: 0xcc\<newline>'' = Some ''0xbb''
   \<and> split_sep CHR 0x0A ''Error: compiler run failed\<newline>'' = [''Error: compiler run failed'', []]
   \<and> parseDeployedAddress ''Error: compiler run failed\<newline>'' = None"
proof -
  let ?out = "''Compiling...\<newline>Deployer: 0xaa\<newline>Deployed to: 0xbb\<newline>Deployed to: 0xcc\<newline>''"
  have h1: "split_sep CHR 0x0A ?out =
     [''Compiling...'', ''Deployer: 0xaa''] @ ''Deployed to: 0xbb'' # [''Deployed to: 0xcc'', '''']"
    by (simp add: split_sep_def)
  have h2: "startswith ''Deployed to: 0xbb'' ''Deployed to:''"
    by (simp add: startswith_def)
  have h3: "\<forall>l \<in> set [''Compiling...'', ''Deployer: 0xaa'']. \<not> startswith l ''Deployed to:''"
    by (simp add: startswith_def)
  have h4: "parseAddress ''Deployed to: 0xbb'' = Some ''0xbb''"
    by (simp add: parseAddress_def split_ws_def is_space_def startswith_def)
  have h5: "\<forall>l \<in> set (split_sep CHR 0x0A ''Error: compiler run failed\<newline>''). \<not> startswith l ''Deployed to:''"
    by (simp add: split_sep_def startswith_def)
  from parseDeployedAddress_first_marker_line[of ?out] h1 h2 h3
  have r1: "parseDeployedAddress ?out = parseAddress ''Deployed to: 0xbb''"
    by blast
  from parseDeployedAddress_first_marker_line[of "''Error: compiler run failed\<newline>''"] h5
  have r2: "parseDeployedAddress ''Error: compiler run failed\<newline>'' = None"
    by blast
  from h1 h2 h3 h4 r1 r2 show ?thesis by (simp add: split_sep_def)
qed

subsection \<open>The tracking identifier\<close>

text \<open>
  Claim C8, as amended. When the verification process was launched and the last line of its
  output whose stripped form starts with \<open>GUID:\<close> ends with a token in double quotes, as
  the line \<open>GUID: "abc123"\<close> after two blanks does, \<open>verify_contract\<close> returns the token
  without the quotes, here \<open>abc123\<close>. The claim as stated asks only that the output
  contains the line; the counterexample is an output in which a second \<open>GUID:\<close> line
  follows, and the identifier of that later line is returned.
\<close>

theorem verify_contract_quoted_guid:
  "w (length t) (map the (verify_args cid runs ver (Some address) contract enc)) = Inr r
   \<and> stdout_lines r = pre @ line # post
   \<and> startswith (strip line) ''GUID:''
   \<and> last (split_ws line) = CHR 0x22 # ident @ [CHR 0x22]
   \<and> (\<forall>l \<in> set post. \<not> startswith (strip l) ''GUID:'')
   \<longrightarrow> fst (verify_contract w cid runs ver (Some address) contract enc t) = Inr ident"
proof
  assume a: "w (length t) (map the (verify_args cid runs ver (Some address) contract enc)) = Inr r
   \<and> stdout_lines r = pre @ line # post
   \<and> startswith (strip line) ''GUID:''
   \<and> last (split_ws line) = CHR 0x22 # ident @ [CHR 0x22]
   \<and> (\<forall>l \<in> set post. \<not> startswith (strip l) ''GUID:'')"
  then have "fst (verify_contract w cid runs ver (Some address) contract enc t)
               = guid_loop [] (pre @ line # post)"
    using verify_contract_ok[of w t cid runs ver address contract enc r] by simp
  also have "\<dots> = Inr (butlast (tl (last (split_ws line))))"
    using a by (simp add: guid_loop_last)
  also have "\<dots> = Inr ident"
    using a by simp
  finally show "fst (verify_contract w cid runs ver (Some address) contract enc t) = Inr ident" .
qed

theorem verify_contract_quoted_guid_witness:
  "fst (verify_contract
          (scripted [[''Submitting verification\<newline>'',
                      [CHR '' '', CHR '' ''] @ ''GUID: '' @ [CHR 0x22] @ ''abc123''
                        @ [CHR 0x22, CHR 0x0A],
                      ''URL: x\<newline>'']])
          5 (TInt 200) ''v0.8.13+commit.abaa5c0e'' (Some ''0x1302'')
          ''src/RentalExchange.sol:RentalExchange'' None [])
     = Inr ''abc123''"
proof -
  let ?line = "[CHR '' '', CHR '' ''] @ ''GUID: '' @ [CHR 0x22] @ ''abc123'' @ [CHR 0x22, CHR 0x0A]"
  let ?ls = "[''Submitting verification\<newline>'', ?line, ''URL: x\<newline>'']"
  let ?r = "\<lparr>stdout_lines = ?ls, returncode = 0\<rparr>"
  have h1: "scripted [?ls] (length ([] :: trace))
      (map the (verify_args 5 (TInt 200) ''v0.8.13+commit.abaa5c0e'' (Some ''0x1302'')
         ''src/RentalExchange.sol:RentalExchange'' None)) = Inr ?r"
    by (simp add: scripted_def)
  have h2: "stdout_lines ?r = [''Submitting verification\<newline>''] @ ?line # [''URL: x\<newline>'']"
    by simp
  have h3: "startswith (strip ?line) ''GUID:''"
    by (simp add: strip_def is_space_def startswith_def)
  have h4: "last (split_ws ?line) = CHR 0x22 # ''abc123'' @ [CHR 0x22]"
    by (simp add: split_ws_def is_space_def)
  have h5: "\<forall>l \<in> set [''URL: x\<newline>'']. \<not> startswith (strip l) ''GUID:''"
    by (simp add: strip_def is_space_def startswith_def)
  from verify_contract_quoted_guid[of "scripted [?ls]" "[]" 5 "TInt 200"
      "''v0.8.13+commit.abaa5c0e''" "''0x1302''" "''src/RentalExchange.sol:RentalExchange''" None
      ?r "[''Submitting verification\<newline>'']" ?line "[''URL: x\<newline>'']" "''abc123''"]
    h1 h2 h3 h4 h5
  show ?thesis by blast
qed

theorem verify_contract_later_guid_counterexample:
  "[CHR '' '', CHR '' ''] @ ''GUID: '' @ [CHR 0x22] @ ''abc123'' @ [CHR 0x22]
     \<in> set [''Submitting verification'',
            [CHR '' '', CHR '' ''] @ ''GUID: '' @ [CHR 0x22] @ ''abc123'' @ [CHR 0x22],
            [CHR '' '', CHR '' ''] @ ''GUID: '' @ [CHR 0x22] @ ''def456'' @ [CHR 0x22]]
   \<and> fst (verify_contract
          (scripted [[''Submitting verification'',
            [CHR '' '', CHR '' ''] @ ''GUID: '' @ [CHR 0x22] @ ''abc123'' @ [CHR 0x22],
            [CHR '' '', CHR '' ''] @ ''GUID: '' @ [CHR 0x22] @ ''def456'' @ [CHR 0x22]]])
          5 (TInt 200) ''v0.8.13+commit.abaa5c0e''
          (Some ''0x1302727142cefebdf3d781646bd29edb4401af25'')
          ''src/RentalExchange.sol:RentalExchange'' None [])
     \<noteq> Inr ''abc123''"
  by (simp add: verify_contract_def and_then_def Popen_def verify_args_def truthy_def
      scripted_def lift_def strip_def is_space_def startswith_def split_ws_def last_item_def
      slice_def clamp_index_def)

subsection \<open>The goerli scenario\<close>

text \<open>
  Claim C9. With the network argument \<open>goerli\<close> and the provider key set, the chain id is
  5 and the RPC URL is \<open>https://eth-goerli.alchemyapi.io/v2/\<close> followed by the key, as the
  claim says, and the argument vector that the code writes for \<open>forge verify-check\<close> would
  hold \<open>--chain-id 5\<close>. But no run builds that command: on every dictionary that
  \<open>verify_contracts\<close> returns, \<open>check_verfication_status\<close> raises \<open>ValueError\<close> at the
  first key before any call, so no call of a run is a \<open>verify-check\<close> call and no run
  ends normally.
\<close>

theorem goerli_run_launches_no_verify_check:
  assumes "argv env = script # ''goerli'' # rest_args" and "ALCHEMY_KEY env = Some key"
  shows "chain_id env = Inr 5
    \<and> rpc_url env = ''https://eth-goerli.alchemyapi.io/v2/'' @ key
    \<and> verify_check_args 5 ident (ETHERSCAN_KEY env) =
         [Some ''forge'', Some ''verify-check'', Some ''--chain-id'', Some ''5'', Some ident,
          ETHERSCAN_KEY env]
    \<and> (\<forall>config addresses guids t t'.
          verify_contracts w config 5 addresses t = (Inr guids, t')
          \<longrightarrow> check_verfication_status env w 5 guids t' = (Inl ValueError, t'))
    \<and> (\<forall>c \<in> set (snd (run_module env w [])). \<not> is_verify_check c)
    \<and> fst (run_module env w []) \<noteq> Inr ()"
proof (intro conjI allI impI ballI)
  from assms(1) show "chain_id env = Inr 5"
    by (simp add: chain_id_def network_def dict_get_def CHAIN_IDS_def)
  from assms show "rpc_url env = ''https://eth-goerli.alchemyapi.io/v2/'' @ key"
    by (simp add: rpc_url_def NETWORK_def str_pyval_def)
  show "verify_check_args 5 ident (ETHERSCAN_KEY env) =
         [Some ''forge'', Some ''verify-check'', Some ''--chain-id'', Some ''5'', Some ident,
          ETHERSCAN_KEY env]"
    by (simp add: verify_check_args_def str_int_5)
  show "fst (run_module env w []) \<noteq> Inr ()"
    by (rule run_module_never_completes)
next
  fix config addresses guids t t'
  assume "verify_contracts w config 5 addresses t = (Inr guids, t')"
  then show "check_verfication_status env w 5 guids t' = (Inl ValueError, t')"
    by (rule status_on_verified)
next
  fix c
  assume "c \<in> set (snd (run_module env w []))"
  moreover have "\<And>t c. c \<in> set (snd (run_module env w t)) \<Longrightarrow>
      c \<in> set t \<or> \<not> is_verify_check c"
    using only_calls_run_module[of env w] by (simp add: only_calls_def)
  ultimately have "c \<in> set [] \<or> \<not> is_verify_check c" by blast
  then show "\<not> is_verify_check c" by simp
qed

theorem goerli_run_launches_no_verify_check_witness:
  "chain_id sample_env = Inr 5
   \<and> rpc_url sample_env = ''https://eth-goerli.alchemyapi.io/v2/key''
   \<and> fst (run_module sample_env (converting (scripted sample_script)) []) = Inl ValueError
   \<and> length (snd (run_module sample_env (converting (scripted sample_script)) [])) = 22
   \<and> filter is_verify_check (snd (run_module sample_env (converting (scripted sample_script)) [])) = []"
proof -
  have h1: "argv sample_env = ''deploy.py'' # ''goerli'' # []" by (simp add: sample_env_def)
  have h2: "ALCHEMY_KEY sample_env = Some ''key''" by (simp add: sample_env_def)
  have r1: "fst (run_module sample_env (converting (scripted sample_script)) []) = Inl ValueError"
    by code_simp
  have r2: "length (snd (run_module sample_env (converting (scripted sample_script)) [])) = 22"
    by code_simp
  from goerli_run_launches_no_verify_check[OF h1 h2, of _ "converting (scripted sample_script)"]
  have g: "chain_id sample_env = Inr 5"
    "rpc_url sample_env = ''https://eth-goerli.alchemyapi.io/v2/'' @ ''key''"
    "\<forall>c \<in> set (snd (run_module sample_env (converting (scripted sample_script)) [])). \<not> is_verify_check c"
    by blast+
  from g(3) have r3: "filter is_verify_check
      (snd (run_module sample_env (converting (scripted sample_script)) [])) = []"
    by (simp add: filter_empty_conv)
  from g(1,2) r1 r2 r3 show ?thesis by simp
qed

subsection \<open>What the identifier is cut from\<close>

text \<open>
  Claim C10. When the verification process was launched, \<open>verify_contract\<close> returns, for the
  last output line whose stripped form starts with \<open>GUID:\<close>, the last token of that line
  without its first and its last character, whatever these characters are. On the single
  line \<open>GUID: abc123\<close> the result is \<open>bc12\<close>.
\<close>

theorem verify_contract_guid_last_line:
  "(\<forall>r pre line post.
      w (length t) (map the (verify_args cid runs ver (Some address) contract enc)) = Inr r
      \<and> stdout_lines r = pre @ line # post
      \<and> startswith (strip line) ''GUID:''
      \<and> (\<forall>l \<in> set post. \<not> startswith (strip l) ''GUID:'')
    \<longrightarrow> fst (verify_contract w cid runs ver (Some address) contract enc t)
          = Inr (butlast (tl (last (split_ws line)))))
   \<and> fst (verify_contract (scripted [[''GUID: abc123'']]) cid runs ver (Some address)
            contract enc []) = Inr ''bc12''"
proof (intro conjI allI impI)
  fix r pre line post
  assume a: "w (length t) (map the (verify_args cid runs ver (Some address) contract enc)) = Inr r
      \<and> stdout_lines r = pre @ line # post
      \<and> startswith (strip line) ''GUID:''
      \<and> (\<forall>l \<in> set post. \<not> startswith (strip l) ''GUID:'')"
  then have "fst (verify_contract w cid runs ver (Some address) contract enc t)
               = guid_loop [] (pre @ line # post)"
    using verify_contract_ok[of w t cid runs ver address contract enc r] by simp
  also have "\<dots> = Inr (butlast (tl (last (split_ws line))))"
    using a by (simp add: guid_loop_last)
  finally show "fst (verify_contract w cid runs ver (Some address) contract enc t)
          = Inr (butlast (tl (last (split_ws line))))" .
next
  have "fst (verify_contract (scripted [[''GUID: abc123'']]) cid runs ver (Some address)
            contract enc []) = guid_loop [] [''GUID: abc123'']"
    using verify_contract_ok[of "scripted [[''GUID: abc123'']]" "[]" cid runs ver address
        contract enc "\<lparr>stdout_lines = [''GUID: abc123''], returncode = 0\<rparr>"]
    by (simp add: scripted_def)
  also have "\<dots> = Inr ''bc12''"
    by (simp add: strip_def is_space_def startswith_def split_ws_def last_item_def slice_def
        clamp_index_def)
  finally show "fst (verify_contract (scripted [[''GUID: abc123'']]) cid runs ver (Some address)
            contract enc []) = Inr ''bc12''" .
qed

theorem verify_contract_guid_last_line_witness:
  "fst (verify_contract
          (scripted [[''Submitted\<newline>'', ''GUID: first\<newline>'', ''GUID: abc123\<newline>'',
                      ''URL: x\<newline>'']])
          5 (TInt 200) ''v0.8.13+commit.abaa5c0e'' (Some ''0x1302'')
          ''src/RentalExchange.sol:RentalExchange'' None [])
     = Inr ''bc12''"
proof -
  let ?ls = "[''Submitted\<newline>'', ''GUID: first\<newline>'', ''GUID: abc123\<newline>'',
              ''URL: x\<newline>'']"
  let ?r = "\<lparr>stdout_lines = ?ls, returncode = 0\<rparr>"
  have h1: "scripted [?ls] (length ([] :: trace))
      (map the (verify_args 5 (TInt 200) ''v0.8.13+commit.abaa5c0e'' (Some ''0x1302'')
         ''src/RentalExchange.sol:RentalExchange'' None)) = Inr ?r"
    by (simp add: scripted_def)
  have h2: "stdout_lines ?r = [''Submitted\<newline>'', ''GUID: first\<newline>'']
              @ ''GUID: abc123\<newline>'' # [''URL: x\<newline>'']"
    by simp
  have h3: "startswith (strip ''GUID: abc123\<newline>'') ''GUID:''"
    by (simp add: strip_def is_space_def startswith_def)
  have h4: "\<forall>l \<in> set [''URL: x\<newline>'']. \<not> startswith (strip l) ''GUID:''"
    by (simp add: strip_def is_space_def startswith_def)
  have h5: "butlast (tl (last (split_ws ''GUID: abc123\<newline>''))) = ''bc12''"
    by (simp add: split_ws_def is_space_def)
  from verify_contract_guid_last_line[of "scripted [?ls]" "[]" 5 "TInt 200"
      "''v0.8.13+commit.abaa5c0e''" "''0x1302''" "''src/RentalExchange.sol:RentalExchange''" None]
    h1 h2 h3 h4
  have "fst (verify_contract (scripted [?ls]) 5 (TInt 200) ''v0.8.13+commit.abaa5c0e''
          (Some ''0x1302'') ''src/RentalExchange.sol:RentalExchange'' None [])
        = Inr (butlast (tl (last (split_ws ''GUID: abc123\<newline>''))))"
    by blast
  with h5 show ?thesis by simp
qed

end
